theory Spec2Isabelle
  imports Main "HOL-Library.Sublist" "HOL-Library.Monad_Syntax"
    "HOL-Library.List_Lexorder" "HOL-Library.Char_ord"
begin

section \<open>Strings\<close>

text \<open>
  A Python \<open>str\<close> is modelled as a \<open>string\<close>: a list of characters, each a code point
  below 256. The three string operations the scrapers use are \<open>str.lower()\<close>,
  \<open>str.strip()\<close> and the substring test \<open>k in s\<close>. On these code points \<open>str.lower()\<close>
  changes the letters \<open>A\<close> to \<open>Z\<close> and the Latin-1 capitals \<open>0xC0\<close> to \<open>0xDE\<close> (all but the
  sign \<open>0xD7\<close>), each to the code point 32 above it; \<open>str.isspace\<close> holds of the codes 9
  to 13, 28 to 32, \<open>0x85\<close> and \<open>0xA0\<close>.
\<close>

definition ascii_uppercase :: string where
  "ascii_uppercase = ''ABCDEFGHIJKLMNOPQRSTUVWXYZ''"

definition ascii_lowercase :: string where
  "ascii_lowercase = ''abcdefghijklmnopqrstuvwxyz''"

definition latin1_uppercase :: string where
  "latin1_uppercase =
     [CHR 0xC0, CHR 0xC1, CHR 0xC2, CHR 0xC3, CHR 0xC4, CHR 0xC5, CHR 0xC6, CHR 0xC7,
      CHR 0xC8, CHR 0xC9, CHR 0xCA, CHR 0xCB, CHR 0xCC, CHR 0xCD, CHR 0xCE, CHR 0xCF,
      CHR 0xD0, CHR 0xD1, CHR 0xD2, CHR 0xD3, CHR 0xD4, CHR 0xD5, CHR 0xD6, CHR 0xD8,
      CHR 0xD9, CHR 0xDA, CHR 0xDB, CHR 0xDC, CHR 0xDD, CHR 0xDE]"

definition latin1_lowercase :: string where
  "latin1_lowercase =
     [CHR 0xE0, CHR 0xE1, CHR 0xE2, CHR 0xE3, CHR 0xE4, CHR 0xE5, CHR 0xE6, CHR 0xE7,
      CHR 0xE8, CHR 0xE9, CHR 0xEA, CHR 0xEB, CHR 0xEC, CHR 0xED, CHR 0xEE, CHR 0xEF,
      CHR 0xF0, CHR 0xF1, CHR 0xF2, CHR 0xF3, CHR 0xF4, CHR 0xF5, CHR 0xF6, CHR 0xF8,
      CHR 0xF9, CHR 0xFA, CHR 0xFB, CHR 0xFC, CHR 0xFD, CHR 0xFE]"

definition lower_char :: "char \<Rightarrow> char" where
  "lower_char c =
     (case map_of (zip (ascii_uppercase @ latin1_uppercase) (ascii_lowercase @ latin1_lowercase)) c
      of Some d \<Rightarrow> d | None \<Rightarrow> c)"

definition lower :: "string \<Rightarrow> string" where
  "lower s = map lower_char s"

definition isspace :: "char \<Rightarrow> bool" where
  "isspace c =
     (let n = (of_char c :: nat)
      in (9 \<le> n \<and> n \<le> 13) \<or> (28 \<le> n \<and> n \<le> 32) \<or> n = 133 \<or> n = 160)"

definition lstrip :: "string \<Rightarrow> string" where
  "lstrip s = dropWhile isspace s"

definition rstrip :: "string \<Rightarrow> string" where
  "rstrip s = rev (dropWhile isspace (rev s))"

definition strip :: "string \<Rightarrow> string" where
  "strip s = rstrip (lstrip s)"

text \<open>\<open>str_contains s k\<close> is Python's \<open>k in s\<close>: \<open>k\<close> occurs in \<open>s\<close> as a contiguous run.\<close>

fun str_contains :: "string \<Rightarrow> string \<Rightarrow> bool" where
  "str_contains [] k = (k = [])"
| "str_contains (c # cs) k = (prefix k (c # cs) \<or> str_contains cs k)"

section \<open>Disaster classifier\<close>

text \<open>The class constant \<open>DISASTER_KEYWORDS\<close> of \<open>check.py\<close>.\<close>

definition DISASTER_KEYWORDS_check :: "string list" where
  "DISASTER_KEYWORDS_check =
     [''earthquake'', ''tsunami'', ''hurricane'', ''tornado'',
      ''flood'', ''cyclone'', ''landslide'', ''volcanic eruption'',
      ''wildfire'', ''storm'', ''avalanche'', ''drought'',
      ''natural disaster'', ''emergency'', ''rescue'', ''evacuation'']"

text \<open>The class constant \<open>DISASTER_KEYWORDS\<close> of \<open>jsonCURR.py\<close>.\<close>

definition DISASTER_KEYWORDS_curr :: "string list" where
  "DISASTER_KEYWORDS_curr =
     [''earthquake'', ''seismic'', ''tremor'',
      ''tsunami'', ''tidal wave'',
      ''hurricane'', ''cyclone'', ''typhoon'', ''tropical storm'',
      ''tornado'', ''twister'',
      ''flood'', ''flooding'', ''river overflow'',
      ''landslide'', ''mudslide'', ''debris flow'',
      ''volcanic eruption'', ''lava flow'', ''ash cloud'',
      ''wildfire'', ''bushfire'', ''forest fire'',
      ''avalanche'', ''snow slide'',
      ''drought'', ''water scarcity'',
      ''heatwave'', ''extreme heat'',
      ''blizzard'', ''snowstorm'', ''ice storm'',
      ''emergency'', ''state of emergency'',
      ''rescue'', ''evacuation'', ''displacement'',
      ''relief efforts'', ''humanitarian aid'',
      ''damage assessment'',
      ''warning'', ''alert'', ''advisory'',
      ''widespread damage'', ''destruction'', ''casualties'',
      ''missing persons'', ''search and rescue'']"

text \<open>
  \<open>_is_disaster_related\<close> (the same body in \<open>check.py\<close> and \<open>jsonCURR.py\<close>):
  \<^verbatim>\<open>any(keyword in text.lower() for keyword in self.DISASTER_KEYWORDS)\<close>.
  The class constant is the first argument.
\<close>

definition is_disaster_related :: "string list \<Rightarrow> string \<Rightarrow> bool" where
  "is_disaster_related DISASTER_KEYWORDS text =
     (let text_lower = lower text
      in list_ex (\<lambda>keyword. str_contains text_lower keyword) DISASTER_KEYWORDS)"

text \<open>
  The \<open>disaster_keywords\<close> field that \<open>_fetch_feed\<close> computes:
  \<^verbatim>\<open>[keyword for keyword in self.DISASTER_KEYWORDS if keyword in combined_text.lower()]\<close>.
\<close>

definition disaster_keywords :: "string list \<Rightarrow> string \<Rightarrow> string list" where
  "disaster_keywords DISASTER_KEYWORDS combined_text =
     filter (\<lambda>keyword. str_contains (lower combined_text) keyword) DISASTER_KEYWORDS"

section \<open>Date normalizer\<close>

text \<open>
  \<open>_parse_date\<close> has the same body in the four scrapers (\<open>app.py\<close> and \<open>jsonDEPRE.py\<close> also
  log a warning in the handler):
  \<^verbatim>\<open>
  try:
      return datetime.strptime(date_str.strip(), '%a, %d %b %Y %H:%M:%S %z')
                     .strftime('%Y-%m-%d %H:%M:%S')
  except Exception:
      return date_str
  \<close>
  \<open>datetime.strptime\<close> and \<open>strftime\<close> belong to the Python standard library, not to the
  repository. They are modelled here for this one pair of formats after CPython's \<open>_strptime\<close>
  module (3.7 to 3.12, C locale, code points below 256): the format is compiled to the regular
  expression
  \<^verbatim>\<open>(mon|tue|wed|thu|fri|sat|sun),\s+(3[0-1]|[1-2]\d|0[1-9]|[1-9]| [1-9])\s+(jan|...|dec)\s+(\d\d\d\d)\s+(2[0-3]|[0-1]\d|\d):([0-5]\d|\d):(6[0-1]|[0-5]\d|\d)\s+([+-]\d\d:?[0-5]\d(:?[0-5]\d(\.\d{1,6})?)?|Z)\<close>,
  matched ignoring case at the start of the string; the match must reach the end of the string;
  the groups are converted to numbers; the time zone and the date are range checked. Every
  failure is a \<open>ValueError\<close>.

  The expression is matched by ordered choice. Every numeric group is followed by a character
  that is not a digit, so of two alternatives that match at one position only one can be
  followed by the rest of the expression, and ordered choice finds the regular expression's
  match.
\<close>

datatype py_error =
  ValueError | AttributeError | FileNotFoundError | EmptyDataError | RequestException | OtherError

definition is_digit :: "char \<Rightarrow> bool" where
  "is_digit c = (let n = (of_char c :: nat) in 48 \<le> n \<and> n \<le> 57)"

definition digit_val :: "char \<Rightarrow> nat" where
  "digit_val c = (of_char c :: nat) - 48"

text \<open>One digit whose value satisfies \<open>P\<close> (a class such as \<open>[0-5]\<close>), and two of them.\<close>

definition re_digit :: "(nat \<Rightarrow> bool) \<Rightarrow> string \<Rightarrow> (nat \<times> string) option" where
  "re_digit P s =
     (case s of
        [] \<Rightarrow> None
      | c # r \<Rightarrow> if is_digit c \<and> P (digit_val c) then Some (digit_val c, r) else None)"

definition re_digits2 ::
  "(nat \<Rightarrow> bool) \<Rightarrow> (nat \<Rightarrow> bool) \<Rightarrow> string \<Rightarrow> (nat \<times> string) option" where
  "re_digits2 P Q s =
     do { (a, r) \<leftarrow> re_digit P s; (b, r') \<leftarrow> re_digit Q r; Some (10 * a + b, r') }"

text \<open>Ordered choice among alternatives.\<close>

fun re_alts :: "(string \<Rightarrow> ('a \<times> string) option) list \<Rightarrow> string \<Rightarrow> ('a \<times> string) option" where
  "re_alts [] s = None"
| "re_alts (p # ps) s = (case p s of Some x \<Rightarrow> Some x | None \<Rightarrow> re_alts ps s)"

definition any_digit :: "nat \<Rightarrow> bool" where
  "any_digit a = True"

definition re_char :: "char \<Rightarrow> string \<Rightarrow> string option" where
  "re_char x s = (case s of [] \<Rightarrow> None | c # r \<Rightarrow> if c = x then Some r else None)"

text \<open>\<^verbatim>\<open>\s+\<close>: one or more whitespace characters.\<close>

definition re_spaces :: "string \<Rightarrow> string option" where
  "re_spaces s =
     (case s of [] \<Rightarrow> None | c # r \<Rightarrow> if isspace c then Some (dropWhile isspace r) else None)"

text \<open>The locale's abbreviated names, lower-cased (\<open>LocaleTime.a_weekday\<close>, \<open>a_month\<close>).\<close>

definition a_weekday :: "string list" where
  "a_weekday = [''mon'', ''tue'', ''wed'', ''thu'', ''fri'', ''sat'', ''sun'']"

definition a_month :: "string list" where
  "a_month = ['''', ''jan'', ''feb'', ''mar'', ''apr'', ''may'', ''jun'',
              ''jul'', ''aug'', ''sep'', ''oct'', ''nov'', ''dec'']"

text \<open>
  A group of names, matched ignoring case; the group's text and the rest. (\<open>__seqToRE\<close> sorts
  the names by decreasing length; these all have length three.)
\<close>

fun re_names :: "string list \<Rightarrow> string \<Rightarrow> (string \<times> string) option" where
  "re_names [] s = None"
| "re_names (n # ns) s =
     (if length n \<le> length s \<and> lower (take (length n) s) = n
      then Some (take (length n) s, drop (length n) s)
      else re_names ns s)"

text \<open>\<open>list.index\<close>: \<open>None\<close> where Python raises \<open>ValueError\<close>.\<close>

fun index_of :: "'a list \<Rightarrow> 'a \<Rightarrow> nat option" where
  "index_of [] x = None"
| "index_of (y # ys) x = (if y = x then Some 0 else map_option Suc (index_of ys x))"

text \<open>The numeric groups \<open>%d\<close>, \<open>%Y\<close>, \<open>%H\<close>, \<open>%M\<close>, \<open>%S\<close>, with \<open>int()\<close> of the group.\<close>

definition re_d :: "string \<Rightarrow> (nat \<times> string) option" where
  "re_d s =
     re_alts
       [re_digits2 (\<lambda>a. a = 3) (\<lambda>b. b \<le> 1),
        re_digits2 (\<lambda>a. 1 \<le> a \<and> a \<le> 2) any_digit,
        re_digits2 (\<lambda>a. a = 0) (\<lambda>b. 1 \<le> b),
        re_digit (\<lambda>a. 1 \<le> a),
        (\<lambda>s. do { r \<leftarrow> re_char (CHR '' '') s; re_digit (\<lambda>a. 1 \<le> a) r })] s"

definition re_Y :: "string \<Rightarrow> (nat \<times> string) option" where
  "re_Y s =
     do { (a, r) \<leftarrow> re_digits2 any_digit any_digit s;
          (b, r') \<leftarrow> re_digits2 any_digit any_digit r;
          Some (100 * a + b, r') }"

definition re_H :: "string \<Rightarrow> (nat \<times> string) option" where
  "re_H s =
     re_alts
       [re_digits2 (\<lambda>a. a = 2) (\<lambda>b. b \<le> 3),
        re_digits2 (\<lambda>a. a \<le> 1) any_digit,
        re_digit any_digit] s"

definition re_M :: "string \<Rightarrow> (nat \<times> string) option" where
  "re_M s = re_alts [re_digits2 (\<lambda>a. a \<le> 5) any_digit, re_digit any_digit] s"

definition re_S :: "string \<Rightarrow> (nat \<times> string) option" where
  "re_S s =
     re_alts
       [re_digits2 (\<lambda>a. a = 6) (\<lambda>b. b \<le> 1),
        re_digits2 (\<lambda>a. a \<le> 5) any_digit,
        re_digit any_digit] s"

text \<open>
  The group \<open>%z\<close>. An offset is its sign (\<open>True\<close> for \<open>-\<close>), the hours, whether a colon
  follows them, the minutes, and the optional seconds: whether a colon precedes them, the
  seconds, and the digits of the fraction (empty when there is none).
\<close>

datatype zone = Zulu | Offset bool nat bool nat "(bool \<times> nat \<times> string) option"

definition re_colon_opt :: "string \<Rightarrow> bool \<times> string" where
  "re_colon_opt s =
     (case s of [] \<Rightarrow> (False, s) | c # r \<Rightarrow> if c = CHR '':'' then (True, r) else (False, s))"

definition re_frac :: "string \<Rightarrow> string \<times> string" where
  "re_frac s =
     (case s of
        [] \<Rightarrow> ([], s)
      | c # r \<Rightarrow>
          if c = CHR ''.'' \<and> takeWhile is_digit r \<noteq> []
          then (let ds = take 6 (takeWhile is_digit r) in (ds, drop (length ds) r))
          else ([], s))"

definition re_seconds_group :: "string \<Rightarrow> (bool \<times> nat \<times> string) option \<times> string" where
  "re_seconds_group s =
     (let (colon, s1) = re_colon_opt s
      in case re_digits2 (\<lambda>a. a \<le> 5) any_digit s1 of
           None \<Rightarrow> (None, s)
         | Some (ss, s2) \<Rightarrow> (let (f, s3) = re_frac s2 in (Some (colon, ss, f), s3)))"

definition re_z :: "string \<Rightarrow> (zone \<times> string) option" where
  "re_z s =
     (case s of
        [] \<Rightarrow> None
      | c # r \<Rightarrow>
          if c = CHR ''+'' \<or> c = CHR ''-'' then
            do { (hh, s1) \<leftarrow> re_digits2 any_digit any_digit r;
                 (colon, s2) \<leftarrow> Some (re_colon_opt s1);
                 (mm, s3) \<leftarrow> re_digits2 (\<lambda>a. a \<le> 5) any_digit s2;
                 (g, s4) \<leftarrow> Some (re_seconds_group s3);
                 Some (Offset (c = CHR ''-'') hh colon mm g, s4) }
          else if c = CHR ''Z'' then Some (Zulu, r)
          else None)"

text \<open>
  The conversion of the group \<open>z\<close>: \<open>gmtoff\<close> in seconds and \<open>gmtoff_fraction\<close> in
  microseconds. With seconds, a colon on one side only is a \<open>ValueError\<close> ("Inconsistent use
  of :", or \<open>int(':5')\<close>).
\<close>

definition int_of_digits :: "string \<Rightarrow> nat" where
  "int_of_digits ds = foldl (\<lambda>a c. 10 * a + digit_val c) 0 ds"

definition gmtoff_of :: "zone \<Rightarrow> py_error + int \<times> int" where
  "gmtoff_of z =
     (case z of
        Zulu \<Rightarrow> Inr (0, 0)
      | Offset neg hh colon mm g \<Rightarrow>
          (case g of
             None \<Rightarrow>
               (let gmtoff = int (hh * 60 * 60 + mm * 60)
                in Inr (if neg then - gmtoff else gmtoff, 0))
           | Some (colon2, ss, f) \<Rightarrow>
               if colon \<noteq> colon2 then Inl ValueError
               else
                 (let gmtoff = int (hh * 60 * 60 + mm * 60 + ss);
                      gmtoff_fraction =
                        int (int_of_digits (f @ replicate (6 - length f) (CHR ''0'')))
                  in Inr (if neg then (- gmtoff, - gmtoff_fraction)
                          else (gmtoff, gmtoff_fraction)))))"

text \<open>
  \<open>datetime.timezone\<close>: the offset, in microseconds, lies strictly between minus and plus 24
  hours.
\<close>

definition timezone :: "int \<times> int \<Rightarrow> py_error + int" where
  "timezone off =
     (let us = fst off * 1000000 + snd off
      in if - 86399999999 \<le> us \<and> us \<le> 86399999999 then Inr us else Inl ValueError)"

record datetime =
  year :: nat
  month :: nat
  day :: nat
  hour :: nat
  minute :: nat
  second :: nat
  utcoffset :: int

definition is_leap :: "nat \<Rightarrow> bool" where
  "is_leap y = (y mod 4 = 0 \<and> (if y mod 100 = 0 then y mod 400 = 0 else True))"

definition days_in_month :: "nat \<Rightarrow> nat \<Rightarrow> nat" where
  "days_in_month y m =
     (if m = 2 then (if is_leap y then 29 else 28)
      else if m = 4 \<or> m = 6 \<or> m = 9 \<or> m = 11 then 30 else 31)"

text \<open>The constructor \<open>datetime(year, month, day, hour, minute, second, 0, tz)\<close>.\<close>

definition datetime_new ::
  "nat \<Rightarrow> nat \<Rightarrow> nat \<Rightarrow> nat \<Rightarrow> nat \<Rightarrow> nat \<Rightarrow> int \<Rightarrow> py_error + datetime" where
  "datetime_new y m d H M S tz =
     (if 1 \<le> y \<and> y \<le> 9999 \<and> 1 \<le> m \<and> m \<le> 12 \<and> 1 \<le> d \<and> d \<le> days_in_month y m
         \<and> H \<le> 23 \<and> M \<le> 59 \<and> S \<le> 59
      then Inr \<lparr>year = y, month = m, day = d, hour = H, minute = M, second = S, utcoffset = tz\<rparr>
      else Inl ValueError)"

text \<open>
  The regular expression of \<^verbatim>\<open>'%a, %d %b %Y %H:%M:%S %z'\<close>: the groups, and what follows
  the match.
\<close>

record found =
  found_a :: string
  found_d :: nat
  found_b :: string
  found_Y :: nat
  found_H :: nat
  found_M :: nat
  found_S :: nat
  found_z :: zone

definition format_regex_match :: "string \<Rightarrow> (found \<times> string) option" where
  "format_regex_match data_string =
     do { (a, s1) \<leftarrow> re_names a_weekday data_string;
          s2 \<leftarrow> re_char (CHR '','') s1;
          s3 \<leftarrow> re_spaces s2;
          (d, s4) \<leftarrow> re_d s3;
          s5 \<leftarrow> re_spaces s4;
          (b, s6) \<leftarrow> re_names (tl a_month) s5;
          s7 \<leftarrow> re_spaces s6;
          (Y, s8) \<leftarrow> re_Y s7;
          s9 \<leftarrow> re_spaces s8;
          (H, s10) \<leftarrow> re_H s9;
          s11 \<leftarrow> re_char (CHR '':'') s10;
          (M, s12) \<leftarrow> re_M s11;
          s13 \<leftarrow> re_char (CHR '':'') s12;
          (S, s14) \<leftarrow> re_S s13;
          s15 \<leftarrow> re_spaces s14;
          (z, s16) \<leftarrow> re_z s15;
          Some (\<lparr>found_a = a, found_d = d, found_b = b, found_Y = Y, found_H = H,
                 found_M = M, found_S = S, found_z = z\<rparr>, s16) }"

text \<open>\<open>datetime.strptime(data_string, '%a, %d %b %Y %H:%M:%S %z')\<close>.\<close>

definition strptime :: "string \<Rightarrow> py_error + datetime" where
  "strptime data_string =
     (case format_regex_match data_string of
        None \<Rightarrow> Inl ValueError
      | Some (f, rest) \<Rightarrow>
          if rest \<noteq> [] then Inl ValueError
          else
            (case index_of a_weekday (lower (found_a f)) of
               None \<Rightarrow> Inl ValueError
             | Some weekday \<Rightarrow>
                 (case index_of a_month (lower (found_b f)) of
                    None \<Rightarrow> Inl ValueError
                  | Some m \<Rightarrow>
                      (case gmtoff_of (found_z f) of
                         Inl e \<Rightarrow> Inl e
                       | Inr off \<Rightarrow>
                           (case timezone off of
                              Inl e \<Rightarrow> Inl e
                            | Inr tz \<Rightarrow>
                                datetime_new (found_Y f) m (found_d f)
                                  (found_H f) (found_M f) (found_S f) tz)))))"

text \<open>
  \<open>strftime('%Y-%m-%d %H:%M:%S')\<close>. \<open>%m\<close>, \<open>%d\<close>, \<open>%H\<close>, \<open>%M\<close> and \<open>%S\<close> are two digits. \<open>%Y\<close> is
  the year in decimal as the C library prints it: glibc does not pad a year below 1000.
\<close>

definition digit_char :: "nat \<Rightarrow> char" where
  "digit_char n = ''0123456789'' ! (n mod 10)"

definition pad2 :: "nat \<Rightarrow> string" where
  "pad2 n = [digit_char (n div 10), digit_char n]"

definition pad4 :: "nat \<Rightarrow> string" where
  "pad4 n = pad2 (n div 100) @ pad2 (n mod 100)"

definition format_Y :: "nat \<Rightarrow> string" where
  "format_Y y = dropWhile (\<lambda>c. c = CHR ''0'') (pad4 y)"

definition strftime :: "datetime \<Rightarrow> string" where
  "strftime dt =
     format_Y (year dt) @ ''-'' @ pad2 (month dt) @ ''-'' @ pad2 (day dt) @ '' '' @
     pad2 (hour dt) @ '':'' @ pad2 (minute dt) @ '':'' @ pad2 (second dt)"

definition parse_date :: "string \<Rightarrow> string" where
  "parse_date date_str =
     (case strptime (strip date_str) of
        Inr date_obj \<Rightarrow> strftime date_obj
      | Inl e \<Rightarrow> date_str)"

subsection \<open>The feed's date format\<close>





section \<open>Gazetteer\<close>

text \<open>
  \<open>_load_cities\<close> reads the reference table with \<open>pandas.read_csv\<close>. The table the loader
  hands over is modelled as a map from column names to columns. A text column (dtype
  \<open>object\<close>) is the list of its cells, \<open>None\<close> for a missing value; on any other column
  (numbers, or a column pandas read as all missing) the accessor \<open>.str\<close> raises
  \<open>AttributeError\<close>. The file system is a record: whether a path exists, and what
  \<open>read_csv\<close> returns or raises for it. What the loaders print or log is not modelled.
\<close>

datatype column = TextColumn "string option list" | OtherColumn

type_synonym dataframe = "string \<Rightarrow> column option"

record environment =
  path_exists :: "string \<Rightarrow> bool"
  read_csv :: "string \<Rightarrow> py_error + dataframe"

definition dropna :: "string option list \<Rightarrow> string list" where
  "dropna cells = List.map_filter (\<lambda>cell. cell) cells"

text \<open>
  \<open>col.dropna().str.f()\<close>, for \<open>f\<close> the normalisation applied to each value
  (\<open>.str.lower()\<close>, or \<open>.str.strip().str.lower()\<close>).
\<close>

definition str_values :: "(string \<Rightarrow> string) \<Rightarrow> column \<Rightarrow> py_error + string list" where
  "str_values f col =
     (case col of
        TextColumn cells \<Rightarrow> Inr (map f (dropna cells))
      | OtherColumn \<Rightarrow> Inl AttributeError)"

text \<open>
  \<^verbatim>\<open>if column in cities_df.columns: cities.update(cities_df[column].dropna().str.f())\<close>
\<close>

definition update_column ::
  "(string \<Rightarrow> string) \<Rightarrow> dataframe \<Rightarrow> string \<Rightarrow> string set \<Rightarrow> py_error + string set" where
  "update_column f cities_df column cities =
     (case cities_df column of
        None \<Rightarrow> Inr cities
      | Some col \<Rightarrow>
          (case str_values f col of
             Inl e \<Rightarrow> Inl e
           | Inr values \<Rightarrow> Inr (cities \<union> set values)))"

text \<open>\<^verbatim>\<open>for column in columns: if column in cities_df.columns: cities.update(...)\<close>\<close>

fun update_columns ::
  "(string \<Rightarrow> string) \<Rightarrow> dataframe \<Rightarrow> string list \<Rightarrow> string set \<Rightarrow> py_error + string set" where
  "update_columns f cities_df [] cities = Inr cities"
| "update_columns f cities_df (column # columns) cities =
     (case update_column f cities_df column cities of
        Inl e \<Rightarrow> Inl e
      | Inr cities' \<Rightarrow> update_columns f cities_df columns cities')"

text \<open>
  \<open>check.py\<close>: the columns \<open>name\<close>, \<open>country\<close>, \<open>subcountry\<close>, lower-cased; both handlers
  (\<open>FileNotFoundError\<close> and \<open>Exception\<close>) return \<open>set()\<close>.
\<close>

definition load_cities_check :: "environment \<Rightarrow> string \<Rightarrow> string set" where
  "load_cities_check env cities_file =
     (case read_csv env cities_file of
        Inl e \<Rightarrow> {}
      | Inr cities_df \<Rightarrow>
          (case update_columns lower cities_df [''name'', ''country'', ''subcountry''] {} of
             Inl e \<Rightarrow> {}
           | Inr cities \<Rightarrow> cities))"

text \<open>
  \<open>jsonDEPRE.py\<close>: the same loop over \<open>required_columns\<close>; both handlers
  (\<open>pd.errors.EmptyDataError\<close> and \<open>Exception\<close>) return \<open>set()\<close>.
\<close>

definition load_cities_depre :: "environment \<Rightarrow> string \<Rightarrow> string set" where
  "load_cities_depre env cities_file =
     (case read_csv env cities_file of
        Inl e \<Rightarrow> {}
      | Inr cities_df \<Rightarrow>
          (case update_columns lower cities_df [''name'', ''country'', ''subcountry''] {} of
             Inl e \<Rightarrow> {}
           | Inr cities \<Rightarrow> cities))"

text \<open>
  The constructor of \<open>jsonDEPRE.py\<close> checks the path first:
  \<^verbatim>\<open>if not os.path.exists(cities_file): raise FileNotFoundError(...)\<close>.
  The result is \<open>self.cities\<close>, or the exception the constructor raises.
\<close>

definition init_depre :: "environment \<Rightarrow> string \<Rightarrow> py_error + string set" where
  "init_depre env cities_file =
     (if \<not> path_exists env cities_file then Inl FileNotFoundError
      else Inr (load_cities_depre env cities_file))"

text \<open>\<open>app.py\<close>: the columns \<open>name\<close> and \<open>subcountry\<close>, lower-cased; the handler returns \<open>set()\<close>.\<close>

definition load_cities_app :: "environment \<Rightarrow> string \<Rightarrow> string set" where
  "load_cities_app env cities_file =
     (case read_csv env cities_file of
        Inl e \<Rightarrow> {}
      | Inr cities_df \<Rightarrow>
          (case update_column lower cities_df ''name'' {} of
             Inl e \<Rightarrow> {}
           | Inr cities \<Rightarrow>
               (case update_column lower cities_df ''subcountry'' cities of
                  Inl e \<Rightarrow> {}
                | Inr cities' \<Rightarrow> cities')))"

text \<open>
  \<open>jsonCURR.py\<close>: the columns \<open>City\<close> and \<open>State\<close>, stripped and lower-cased
  (\<^verbatim>\<open># Handle case sensitivity and strip whitespace\<close>); there is no handler, an exception
  leaves the function.
\<close>

definition load_cities_curr :: "environment \<Rightarrow> string \<Rightarrow> py_error + string set" where
  "load_cities_curr env cities_file =
     (case read_csv env cities_file of
        Inl e \<Rightarrow> Inl e
      | Inr cities_df \<Rightarrow>
          (case update_column (\<lambda>v. lower (strip v)) cities_df ''City'' {} of
             Inl e \<Rightarrow> Inl e
           | Inr cities \<Rightarrow> update_column (\<lambda>v. lower (strip v)) cities_df ''State'' cities))"

section \<open>Location resolver\<close>

text \<open>
  The spaCy pipeline \<open>self.nlp\<close> is an external model: a function from the text to the
  entities of \<open>doc.ents\<close>, each with its text and its label. \<open>list(s)\<close> enumerates a Python set
  in an order the language does not fix; it is the parameter \<open>to_list\<close>, of which only
  \<open>list_of_set to_list\<close> is known: the list holds the members of the set, each once.
  This section is about a call of the pipeline that returns; a call that raises is part of
  the driver, below.
\<close>

record ent =
  ent_text :: string
  ent_label :: string

definition list_of_set :: "(string set \<Rightarrow> string list) \<Rightarrow> bool" where
  "list_of_set to_list = (\<forall>s. finite s \<longrightarrow> set (to_list s) = s \<and> distinct (to_list s))"

text \<open>\<^verbatim>\<open>{ent.text.lower() for ent in doc.ents if ent.label_ == 'GPE'}\<close>\<close>

definition ner_locations :: "(string \<Rightarrow> ent list) \<Rightarrow> string \<Rightarrow> string set" where
  "ner_locations nlp text =
     (let doc_ents = nlp text
      in set (map (\<lambda>e. lower (ent_text e)) (filter (\<lambda>e. ent_label e = ''GPE'') doc_ents)))"

text \<open>\<open>_extract_locations\<close> of \<open>check.py\<close> and \<open>jsonDEPRE.py\<close>.\<close>

definition extract_locations ::
  "(string set \<Rightarrow> string list) \<Rightarrow> (string \<Rightarrow> ent list) \<Rightarrow> string set \<Rightarrow> string \<Rightarrow> string list" where
  "extract_locations to_list nlp cities text =
     (let matched_locations = cities \<inter> ner_locations nlp text
      in if matched_locations \<noteq> {} then to_list matched_locations else [''Unknown''])"

text \<open>\<open>_extract_locations\<close> of \<open>jsonCURR.py\<close>.\<close>

definition extract_locations_curr ::
  "(string set \<Rightarrow> string list) \<Rightarrow> (string \<Rightarrow> ent list) \<Rightarrow> string set \<Rightarrow> string \<Rightarrow> string list" where
  "extract_locations_curr to_list nlp cities text =
     (let ner = ner_locations nlp text;
          matched_cities = cities \<inter> ner;
          matched_states = Set.filter (\<lambda>state. state \<in> cities) ner;
          matched_countries = Set.filter (\<lambda>country. country \<in> cities) ner;
          all_matches = to_list (matched_cities \<union> (matched_states \<union> matched_countries))
      in if all_matches \<noteq> [] then all_matches else [''Unknown''])"

text \<open>\<open>', '.join(xs)\<close>, and \<open>_extract_locations\<close> of \<open>app.py\<close>, which returns one string.\<close>

fun join :: "string \<Rightarrow> string list \<Rightarrow> string" where
  "join sep [] = []"
| "join sep [x] = x"
| "join sep (x # y # ys) = x @ sep @ join sep (y # ys)"

definition extract_locations_app ::
  "(string set \<Rightarrow> string list) \<Rightarrow> (string \<Rightarrow> ent list) \<Rightarrow> string set \<Rightarrow> string \<Rightarrow> string" where
  "extract_locations_app to_list nlp cities text =
     (let matched_locations = cities \<inter> ner_locations nlp text
      in if matched_locations \<noteq> {} then join '', '' (to_list matched_locations) else ''Unknown'')"

text \<open>
  The non-missing values of a column of the table: none when the table has no such column, or
  when the column is not a text column.
\<close>

definition column_values :: "dataframe \<Rightarrow> string \<Rightarrow> string set" where
  "column_values cities_df column =
     (case cities_df column of
        Some (TextColumn cells) \<Rightarrow> set (dropna cells)
      | _ \<Rightarrow> {})"

section \<open>Feed entries and the pipeline driver\<close>

text \<open>
  An \<open>item\<close> element of the parsed feed. \<open>entry.find('title')\<close> is \<open>None\<close> when the element has
  no such child, and otherwise a tag whose \<open>.text\<close> is a string; \<open>find_title\<close> is that text,
  or \<open>None\<close>. Reading \<open>.text\<close> of \<open>None\<close> raises \<open>AttributeError\<close>.
\<close>

record entry =
  find_title :: "string option"
  find_description :: "string option"
  find_link :: "string option"
  find_pubDate :: "string option"

text \<open>
  The dictionaries appended to the result: the keys of \<open>jsonDEPRE.py\<close>, the keys of
  \<open>check.py\<close> and \<open>jsonCURR.py\<close> (one more, \<open>disaster_keywords\<close>), and the capitalised keys of
  \<open>app.py\<close>.
\<close>

record article =
  item_title :: string
  item_date :: string
  item_description :: string
  item_link :: string
  item_locations :: "string list"
  item_source :: string

record disaster_article = article +
  item_disaster_keywords :: "string list"

record row =
  Title :: string
  Date :: string
  Description :: string
  Link :: string
  Location :: string
  Source :: string

text \<open>
  The records written by \<open>logging\<close>. Each message of the source ends with the text of the
  exception, which is left out.
\<close>

datatype log_record = WARNING string | ERROR string | INFO string

text \<open>\<open>_parse_date\<close> of \<open>app.py\<close> and \<open>jsonDEPRE.py\<close>, with the warning its handler logs.\<close>

definition parse_date_logged :: "string \<Rightarrow> string \<times> log_record list" where
  "parse_date_logged date_str =
     (case strptime (strip date_str) of
        Inr date_obj \<Rightarrow> (strftime date_obj, [])
      | Inl e \<Rightarrow> (date_str, [WARNING (''Error parsing date '' @ date_str)]))"

subsection \<open>The call of the entity recogniser\<close>

text \<open>
  \<open>_extract_locations\<close> begins with \<open>doc = self.nlp(text)\<close>, a call into the spaCy pipeline
  that may raise. In the driver the recogniser is a function from the text to the entities of
  \<open>doc.ents\<close>, or to the exception raised. \<open>with_nlp nlp text resolver\<close> is the call of a
  resolver of Section \<open>Location resolver\<close> on \<open>text\<close>: the exception of the recogniser, or the
  resolver's result on the entities returned.
\<close>

definition with_nlp ::
  "(string \<Rightarrow> py_error + ent list) \<Rightarrow> string \<Rightarrow> ((string \<Rightarrow> ent list) \<Rightarrow> 'a) \<Rightarrow> py_error + 'a" where
  "with_nlp nlp text resolver =
     (case nlp text of
        Inl e \<Rightarrow> Inl e
      | Inr doc_ents \<Rightarrow> Inr (resolver (\<lambda>t. doc_ents)))"

subsection \<open>\<open>check.py\<close>\<close>

text \<open>
  The body of the loop of \<open>_fetch_feed\<close>: an absent child is read as the empty string
  (\<^verbatim>\<open>entry.find('title').text.strip() if entry.find('title') else ''\<close>), and the item is
  appended when the text is disaster related. The only call of the body that can raise is
  the recogniser's, while the dictionary is built.
\<close>

definition text_or_empty :: "string option \<Rightarrow> string" where
  "text_or_empty found = (case found of Some t \<Rightarrow> strip t | None \<Rightarrow> [])"

definition item_check ::
  "(string set \<Rightarrow> string list) \<Rightarrow> (string \<Rightarrow> py_error + ent list) \<Rightarrow> string set \<Rightarrow> string
     \<Rightarrow> entry \<Rightarrow> py_error + disaster_article option" where
  "item_check to_list nlp cities url entry =
     (let title = text_or_empty (find_title entry);
          description = text_or_empty (find_description entry);
          pub_date = text_or_empty (find_pubDate entry);
          link = text_or_empty (find_link entry);
          combined_text = title @ '' '' @ description
      in if is_disaster_related DISASTER_KEYWORDS_check combined_text
         then
           (case with_nlp nlp combined_text
                   (\<lambda>doc. extract_locations to_list doc cities combined_text) of
              Inl e \<Rightarrow> Inl e
            | Inr locations \<Rightarrow>
                Inr (Some \<lparr>item_title = title,
                            item_date = parse_date pub_date,
                            item_description = description,
                            item_link = link,
                            item_locations = locations,
                            item_source = url,
                            item_disaster_keywords =
                              disaster_keywords DISASTER_KEYWORDS_check combined_text\<rparr>))
         else Inr None)"

text \<open>
  The \<open>for\<close> loop, on the items appended so far. There is no handler inside the loop: an
  exception leaves it. The result is \<open>disaster_items\<close> when the loop ends, and the exception
  that ended it, if any.
\<close>

fun loop_check ::
  "(string set \<Rightarrow> string list) \<Rightarrow> (string \<Rightarrow> py_error + ent list) \<Rightarrow> string set \<Rightarrow> string
     \<Rightarrow> disaster_article list \<Rightarrow> entry list \<Rightarrow> disaster_article list \<times> py_error option" where
  "loop_check to_list nlp cities url disaster_items [] = (disaster_items, None)"
| "loop_check to_list nlp cities url disaster_items (entry # entries) =
     (case item_check to_list nlp cities url entry of
        Inr (Some item) \<Rightarrow> loop_check to_list nlp cities url (disaster_items @ [item]) entries
      | Inr None \<Rightarrow> loop_check to_list nlp cities url disaster_items entries
      | Inl e \<Rightarrow> (disaster_items, Some e))"

text \<open>
  \<open>_fetch_feed\<close>. The request, the status check and the parse of the response are the
  parameter \<open>http\<close>: the \<open>item\<close> elements of the feed, or the exception raised. The two
  handlers of \<open>check.py\<close> (\<open>RequestException\<close> and \<open>Exception\<close>) enclose the request and the
  loop; both print and fall through to \<^verbatim>\<open>return disaster_items\<close>.
\<close>

definition fetch_feed_check ::
  "(string set \<Rightarrow> string list) \<Rightarrow> (string \<Rightarrow> py_error + ent list) \<Rightarrow> string set
     \<Rightarrow> (string \<Rightarrow> py_error + entry list) \<Rightarrow> string \<Rightarrow> disaster_article list" where
  "fetch_feed_check to_list nlp cities http url =
     (case http url of
        Inl e \<Rightarrow> []
      | Inr entries \<Rightarrow>
          (case loop_check to_list nlp cities url [] entries of
             (disaster_items, raised) \<Rightarrow> disaster_items))"

subsection \<open>\<open>jsonCURR.py\<close>\<close>

text \<open>
  The body of the inner \<open>try\<close>: \<open>title\<close> and \<open>description\<close> are read first; \<open>pubDate\<close> and
  \<open>link\<close> are read, and then the recogniser is called, only while the dictionary of a
  disaster-related entry is built.
\<close>

definition item_curr ::
  "(string set \<Rightarrow> string list) \<Rightarrow> (string \<Rightarrow> py_error + ent list) \<Rightarrow> string set \<Rightarrow> string
     \<Rightarrow> entry \<Rightarrow> py_error + disaster_article option" where
  "item_curr to_list nlp cities url entry =
     (case find_title entry of
        None \<Rightarrow> Inl AttributeError
      | Some t \<Rightarrow>
     (case find_description entry of
        None \<Rightarrow> Inl AttributeError
      | Some d \<Rightarrow>
          (let title = strip t;
               description = strip d;
               combined_text = title @ '' '' @ description
           in if is_disaster_related DISASTER_KEYWORDS_curr combined_text
              then
                (case find_pubDate entry of
                   None \<Rightarrow> Inl AttributeError
                 | Some p \<Rightarrow>
                (case find_link entry of
                   None \<Rightarrow> Inl AttributeError
                 | Some l \<Rightarrow>
                (case with_nlp nlp combined_text
                        (\<lambda>doc. extract_locations_curr to_list doc cities combined_text) of
                   Inl e \<Rightarrow> Inl e
                 | Inr locations \<Rightarrow>
                     Inr (Some \<lparr>item_title = title,
                                 item_date = parse_date p,
                                 item_description = description,
                                 item_link = strip l,
                                 item_locations = locations,
                                 item_source = url,
                                 item_disaster_keywords =
                                   disaster_keywords DISASTER_KEYWORDS_curr combined_text\<rparr>))))
              else Inr None)))"

text \<open>
  The loop: \<^verbatim>\<open>except AttributeError: continue\<close>; any other exception leaves the loop. The
  result is \<open>disaster_items\<close> when the loop ends, and the exception that ended it, if any.
\<close>

fun loop_curr ::
  "(string set \<Rightarrow> string list) \<Rightarrow> (string \<Rightarrow> py_error + ent list) \<Rightarrow> string set \<Rightarrow> string
     \<Rightarrow> disaster_article list \<Rightarrow> entry list \<Rightarrow> disaster_article list \<times> py_error option" where
  "loop_curr to_list nlp cities url disaster_items [] = (disaster_items, None)"
| "loop_curr to_list nlp cities url disaster_items (entry # entries) =
     (case item_curr to_list nlp cities url entry of
        Inr (Some item) \<Rightarrow> loop_curr to_list nlp cities url (disaster_items @ [item]) entries
      | Inr None \<Rightarrow> loop_curr to_list nlp cities url disaster_items entries
      | Inl e \<Rightarrow>
          if e = AttributeError then loop_curr to_list nlp cities url disaster_items entries
          else (disaster_items, Some e))"

text \<open>
  \<open>_fetch_feed\<close>: \<^verbatim>\<open>except requests.exceptions.RequestException: pass\<close> encloses the request
  and the loop, and is followed by \<^verbatim>\<open>return disaster_items\<close>; any other exception leaves
  the function.
\<close>

definition fetch_feed_curr ::
  "(string set \<Rightarrow> string list) \<Rightarrow> (string \<Rightarrow> py_error + ent list) \<Rightarrow> string set
     \<Rightarrow> (string \<Rightarrow> py_error + entry list) \<Rightarrow> string \<Rightarrow> py_error + disaster_article list" where
  "fetch_feed_curr to_list nlp cities http url =
     (case http url of
        Inl e \<Rightarrow> if e = RequestException then Inr [] else Inl e
      | Inr entries \<Rightarrow>
          (case loop_curr to_list nlp cities url [] entries of
             (disaster_items, None) \<Rightarrow> Inr disaster_items
           | (disaster_items, Some e) \<Rightarrow>
               if e = RequestException then Inr disaster_items else Inl e))"

subsection \<open>\<open>app.py\<close>\<close>

text \<open>
  The body of the inner \<open>try\<close>: the four children are read in the order \<open>title\<close>,
  \<open>description\<close>, \<open>link\<close>, \<open>pubDate\<close>, then the date is parsed and the recogniser is called.
  The result is the row, or the exception that ended the body, and what \<open>_parse_date\<close>
  logged before.
\<close>

definition item_app ::
  "(string set \<Rightarrow> string list) \<Rightarrow> (string \<Rightarrow> py_error + ent list) \<Rightarrow> string set \<Rightarrow> string
     \<Rightarrow> entry \<Rightarrow> (py_error + row) \<times> log_record list" where
  "item_app to_list nlp cities url entry =
     (case find_title entry of
        None \<Rightarrow> (Inl AttributeError, [])
      | Some t \<Rightarrow>
     (case find_description entry of
        None \<Rightarrow> (Inl AttributeError, [])
      | Some d \<Rightarrow>
     (case find_link entry of
        None \<Rightarrow> (Inl AttributeError, [])
      | Some l \<Rightarrow>
     (case find_pubDate entry of
        None \<Rightarrow> (Inl AttributeError, [])
      | Some p \<Rightarrow>
          (let title = strip t;
               description = strip d;
               link = strip l;
               (date, logged) = parse_date_logged p;
               combined_text = title @ '' '' @ description
           in case with_nlp nlp combined_text
                     (\<lambda>doc. extract_locations_app to_list doc cities combined_text) of
                Inl e \<Rightarrow> (Inl e, logged)
              | Inr location \<Rightarrow>
                  (Inr \<lparr>Title = title, Date = date, Description = description, Link = link,
                        Location = location, Source = url\<rparr>, logged))))))"

text \<open>
  The loop, on the rows appended and the records logged so far:
  \<^verbatim>\<open>except AttributeError as e: logging.warning(...); continue\<close>; any other exception leaves
  the loop. The result is the rows and the log when the loop ends, and the exception that
  ended it, if any.
\<close>

fun loop_app ::
  "(string set \<Rightarrow> string list) \<Rightarrow> (string \<Rightarrow> py_error + ent list) \<Rightarrow> string set \<Rightarrow> string
     \<Rightarrow> row list \<times> log_record list \<Rightarrow> entry list
     \<Rightarrow> (row list \<times> log_record list) \<times> py_error option" where
  "loop_app to_list nlp cities url (items, log) [] = ((items, log), None)"
| "loop_app to_list nlp cities url (items, log) (entry # entries) =
     (case item_app to_list nlp cities url entry of
        (Inr item, logged) \<Rightarrow>
          loop_app to_list nlp cities url (items @ [item], log @ logged) entries
      | (Inl e, logged) \<Rightarrow>
          if e = AttributeError
          then loop_app to_list nlp cities url
                 (items, log @ logged @ [WARNING (''Error parsing entry in '' @ url)]) entries
          else ((items, log @ logged), Some e))"

text \<open>
  \<open>_fetch_feed\<close>:
  \<^verbatim>\<open>except requests.exceptions.RequestException as e: logging.error(...)\<close> encloses the
  request and the loop, and is followed by \<^verbatim>\<open>return items\<close>; any other exception leaves the
  function. The result is the rows returned, or the exception raised, and the log.
\<close>

definition fetch_feed_app ::
  "(string set \<Rightarrow> string list) \<Rightarrow> (string \<Rightarrow> py_error + ent list) \<Rightarrow> string set
     \<Rightarrow> (string \<Rightarrow> py_error + entry list) \<Rightarrow> string
     \<Rightarrow> (py_error + row list) \<times> log_record list" where
  "fetch_feed_app to_list nlp cities http url =
     (case http url of
        Inl e \<Rightarrow>
          if e = RequestException then (Inr [], [ERROR (''Error fetching feed '' @ url)])
          else (Inl e, [])
      | Inr entries \<Rightarrow>
          (case loop_app to_list nlp cities url ([], []) entries of
             ((items, log), None) \<Rightarrow> (Inr items, log)
           | ((items, log), Some e) \<Rightarrow>
               if e = RequestException
               then (Inr items, log @ [ERROR (''Error fetching feed '' @ url)])
               else (Inl e, log)))"

subsection \<open>\<open>jsonDEPRE.py\<close>\<close>

definition item_depre ::
  "(string set \<Rightarrow> string list) \<Rightarrow> (string \<Rightarrow> py_error + ent list) \<Rightarrow> string set \<Rightarrow> string
     \<Rightarrow> entry \<Rightarrow> (py_error + article) \<times> log_record list" where
  "item_depre to_list nlp cities url entry =
     (case find_title entry of
        None \<Rightarrow> (Inl AttributeError, [])
      | Some t \<Rightarrow>
     (case find_description entry of
        None \<Rightarrow> (Inl AttributeError, [])
      | Some d \<Rightarrow>
     (case find_link entry of
        None \<Rightarrow> (Inl AttributeError, [])
      | Some l \<Rightarrow>
     (case find_pubDate entry of
        None \<Rightarrow> (Inl AttributeError, [])
      | Some p \<Rightarrow>
          (let title = strip t;
               description = strip d;
               link = strip l;
               (date, logged) = parse_date_logged p;
               combined_text = title @ '' '' @ description
           in case with_nlp nlp combined_text
                     (\<lambda>doc. extract_locations to_list doc cities combined_text) of
                Inl e \<Rightarrow> (Inl e, logged)
              | Inr locations \<Rightarrow>
                  (Inr \<lparr>item_title = title, item_date = date, item_description = description,
                        item_link = link, item_locations = locations, item_source = url\<rparr>,
                   logged))))))"

fun loop_depre ::
  "(string set \<Rightarrow> string list) \<Rightarrow> (string \<Rightarrow> py_error + ent list) \<Rightarrow> string set \<Rightarrow> string
     \<Rightarrow> article list \<times> log_record list \<Rightarrow> entry list
     \<Rightarrow> (article list \<times> log_record list) \<times> py_error option" where
  "loop_depre to_list nlp cities url (items, log) [] = ((items, log), None)"
| "loop_depre to_list nlp cities url (items, log) (entry # entries) =
     (case item_depre to_list nlp cities url entry of
        (Inr item, logged) \<Rightarrow>
          loop_depre to_list nlp cities url (items @ [item], log @ logged) entries
      | (Inl e, logged) \<Rightarrow>
          if e = AttributeError
          then loop_depre to_list nlp cities url
                 (items, log @ logged @ [WARNING (''Error parsing entry in '' @ url)]) entries
          else ((items, log @ logged), Some e))"

definition fetch_feed_depre ::
  "(string set \<Rightarrow> string list) \<Rightarrow> (string \<Rightarrow> py_error + ent list) \<Rightarrow> string set
     \<Rightarrow> (string \<Rightarrow> py_error + entry list) \<Rightarrow> string
     \<Rightarrow> (py_error + article list) \<times> log_record list" where
  "fetch_feed_depre to_list nlp cities http url =
     (case http url of
        Inl e \<Rightarrow>
          if e = RequestException then (Inr [], [ERROR (''Error fetching feed '' @ url)])
          else (Inl e, [])
      | Inr entries \<Rightarrow>
          (case loop_depre to_list nlp cities url ([], []) entries of
             ((items, log), None) \<Rightarrow> (Inr items, log)
           | ((items, log), Some e) \<Rightarrow>
               if e = RequestException
               then (Inr items, log @ [ERROR (''Error fetching feed '' @ url)])
               else (Inl e, log)))"

subsection \<open>Vocabulary for the statements about the driver\<close>

text \<open>
  An entry is well formed when its four children are present. Its combined text is the
  stripped title, one blank, and the stripped description, an absent child counting as the
  empty string. The recogniser returns on an entry when its call on the combined text raises
  nothing; it escapes on an entry when that call raises an exception other than
  \<open>AttributeError\<close>, the one exception that the handlers inside the loops catch. The record
  an entry contributes to the result of each script, if any: none when the body of the loop
  raises.
\<close>

definition well_formed :: "entry \<Rightarrow> bool" where
  "well_formed entry =
     (find_title entry \<noteq> None \<and> find_description entry \<noteq> None
      \<and> find_link entry \<noteq> None \<and> find_pubDate entry \<noteq> None)"

definition combined_text_of :: "entry \<Rightarrow> string" where
  "combined_text_of entry =
     text_or_empty (find_title entry) @ '' '' @ text_or_empty (find_description entry)"

definition nlp_returns :: "(string \<Rightarrow> py_error + ent list) \<Rightarrow> entry \<Rightarrow> bool" where
  "nlp_returns nlp entry =
     (case nlp (combined_text_of entry) of Inr doc_ents \<Rightarrow> True | Inl e \<Rightarrow> False)"

definition nlp_escapes :: "(string \<Rightarrow> py_error + ent list) \<Rightarrow> entry \<Rightarrow> bool" where
  "nlp_escapes nlp entry =
     (case nlp (combined_text_of entry) of Inr doc_ents \<Rightarrow> False | Inl e \<Rightarrow> e \<noteq> AttributeError)"

definition produced_check ::
  "(string set \<Rightarrow> string list) \<Rightarrow> (string \<Rightarrow> py_error + ent list) \<Rightarrow> string set \<Rightarrow> string
     \<Rightarrow> entry \<Rightarrow> disaster_article option" where
  "produced_check to_list nlp cities url entry =
     (case item_check to_list nlp cities url entry of Inr r \<Rightarrow> r | Inl e \<Rightarrow> None)"

definition produced_curr ::
  "(string set \<Rightarrow> string list) \<Rightarrow> (string \<Rightarrow> py_error + ent list) \<Rightarrow> string set \<Rightarrow> string
     \<Rightarrow> entry \<Rightarrow> disaster_article option" where
  "produced_curr to_list nlp cities url entry =
     (case item_curr to_list nlp cities url entry of Inr r \<Rightarrow> r | Inl e \<Rightarrow> None)"

definition produced_app ::
  "(string set \<Rightarrow> string list) \<Rightarrow> (string \<Rightarrow> py_error + ent list) \<Rightarrow> string set \<Rightarrow> string
     \<Rightarrow> entry \<Rightarrow> row option" where
  "produced_app to_list nlp cities url entry =
     (case fst (item_app to_list nlp cities url entry) of Inr r \<Rightarrow> Some r | Inl e \<Rightarrow> None)"

definition produced_depre ::
  "(string set \<Rightarrow> string list) \<Rightarrow> (string \<Rightarrow> py_error + ent list) \<Rightarrow> string set \<Rightarrow> string
     \<Rightarrow> entry \<Rightarrow> article option" where
  "produced_depre to_list nlp cities url entry =
     (case fst (item_depre to_list nlp cities url entry) of Inr r \<Rightarrow> Some r | Inl e \<Rightarrow> None)"
section \<open>Properties of the string operations\<close>

lemma str_contains_iff: "str_contains s k \<longleftrightarrow> (\<exists>p t. s = p @ k @ t)"
proof (induction s)
  case Nil
  show ?case by auto
next
  case (Cons c cs)
  show ?case
  proof
    assume "str_contains (c # cs) k"
    then consider "prefix k (c # cs)" | "str_contains cs k" by auto
    then show "\<exists>p t. c # cs = p @ k @ t"
    proof cases
      case 1
      then obtain t where "c # cs = k @ t" by (auto simp: prefix_def)
      then have "c # cs = [] @ k @ t" by simp
      then show ?thesis by blast
    next
      case 2
      with Cons.IH obtain p t where "cs = p @ k @ t" by blast
      then have "c # cs = (c # p) @ k @ t" by simp
      then show ?thesis by blast
    qed
  next
    assume "\<exists>p t. c # cs = p @ k @ t"
    then obtain p t where eq: "c # cs = p @ k @ t" by blast
    show "str_contains (c # cs) k"
    proof (cases p)
      case Nil
      with eq have "prefix k (c # cs)" by (simp add: prefix_def)
      then show ?thesis by simp
    next
      case (Cons a p')
      with eq have "cs = p' @ k @ t" by simp
      with Cons.IH have "str_contains cs k" by blast
      then show ?thesis by simp
    qed
  qed
qed

lemma str_contains_sublist: "str_contains s k \<longleftrightarrow> sublist k s"
  by (simp add: str_contains_iff sublist_def)

lemmas lower_eval = lower_def lower_char_def ascii_uppercase_def ascii_lowercase_def
  latin1_uppercase_def latin1_lowercase_def

lemma lower_char_idem: "lower_char (lower_char c) = lower_char c"
  by (auto simp: lower_char_def ascii_uppercase_def ascii_lowercase_def
      latin1_uppercase_def latin1_lowercase_def split: option.splits if_splits)

lemma lower_idem: "lower (lower s) = lower s"
  by (simp add: lower_def lower_char_idem)

lemma lower_not_Unknown: "lower s \<noteq> ''Unknown''"
  by (auto simp: lower_def lower_char_def ascii_uppercase_def ascii_lowercase_def
      latin1_uppercase_def latin1_lowercase_def map_eq_Cons_conv split: option.splits if_splits)

section \<open>Properties of the disaster classifier\<close>

lemma count_list_filter_distinct:
  "distinct xs \<Longrightarrow> count_list (filter P xs) k = (if k \<in> set xs \<and> P k then 1 else 0)"
  by (induction xs) auto

lemma distinct_DISASTER_KEYWORDS_check: "distinct DISASTER_KEYWORDS_check"
  by (simp add: DISASTER_KEYWORDS_check_def)

lemma distinct_DISASTER_KEYWORDS_curr: "distinct DISASTER_KEYWORDS_curr"
  by (simp add: DISASTER_KEYWORDS_curr_def)

lemma lowercase_DISASTER_KEYWORDS_check:
  "list_all (\<lambda>k. lower k = k) DISASTER_KEYWORDS_check"
  by (simp add: DISASTER_KEYWORDS_check_def lower_eval)

lemma lowercase_DISASTER_KEYWORDS_curr:
  "list_all (\<lambda>k. lower k = k) DISASTER_KEYWORDS_curr"
  by (simp add: DISASTER_KEYWORDS_curr_def lower_eval)

lemma disaster_keywords_filter:
  "disaster_keywords kws text = filter (\<lambda>k. sublist k (lower text)) kws"
  by (simp add: disaster_keywords_def str_contains_sublist)

lemma disaster_keywords_count:
  assumes "distinct kws"
  shows "count_list (disaster_keywords kws text) k =
           (if k \<in> set kws \<and> sublist k (lower text) then 1 else 0)"
  unfolding disaster_keywords_filter using assms by (rule count_list_filter_distinct)

lemma eval_flood_curr:
  "disaster_keywords DISASTER_KEYWORDS_curr ''A flood hit the region'' = [''flood'']"
  by (simp add: disaster_keywords_def DISASTER_KEYWORDS_curr_def lower_eval)

lemma eval_bakery_curr:
  "disaster_keywords DISASTER_KEYWORDS_curr ''Local bakery wins award'' = []"
  by (simp add: disaster_keywords_def DISASTER_KEYWORDS_curr_def lower_eval)

lemma eval_flood_check:
  "disaster_keywords DISASTER_KEYWORDS_check ''A flood hit the region'' = [''flood'']"
  by (simp add: disaster_keywords_def DISASTER_KEYWORDS_check_def lower_eval)

lemma eval_order_curr:
  "disaster_keywords DISASTER_KEYWORDS_curr ''Flooding after the FLOOD: flood warning issued''
     = [''flood'', ''flooding'', ''warning'']"
  by (simp add: disaster_keywords_def DISASTER_KEYWORDS_curr_def lower_eval)

text \<open>
  Claim C2. For every text, and for the vocabulary of either scraper (indeed for any
  vocabulary), the verdict \<open>_is_disaster_related\<close> is true exactly when the list of matched
  keywords computed by \<open>_fetch_feed\<close> is not empty: both apply the same substring test to the
  same lower-cased text over the same vocabulary.
\<close>

theorem classifier_verdict_iff_keywords:
  "is_disaster_related kws text \<longleftrightarrow> disaster_keywords kws text \<noteq> []"
  by (simp add: is_disaster_related_def disaster_keywords_def list_ex_iff filter_empty_conv)

theorem classifier_verdict_iff_keywords_witness:
  "is_disaster_related DISASTER_KEYWORDS_curr ''A flood hit the region''
   \<and> disaster_keywords DISASTER_KEYWORDS_curr ''A flood hit the region'' = [''flood'']
   \<and> \<not> is_disaster_related DISASTER_KEYWORDS_curr ''Local bakery wins award''
   \<and> disaster_keywords DISASTER_KEYWORDS_curr ''Local bakery wins award'' = []
   \<and> is_disaster_related DISASTER_KEYWORDS_check ''A flood hit the region''"
proof -
  have a: "is_disaster_related DISASTER_KEYWORDS_curr ''A flood hit the region''"
    using classifier_verdict_iff_keywords [of DISASTER_KEYWORDS_curr "''A flood hit the region''"]
    by (simp add: eval_flood_curr)
  have b: "\<not> is_disaster_related DISASTER_KEYWORDS_curr ''Local bakery wins award''"
    using classifier_verdict_iff_keywords [of DISASTER_KEYWORDS_curr "''Local bakery wins award''"]
    by (simp add: eval_bakery_curr)
  have c: "is_disaster_related DISASTER_KEYWORDS_check ''A flood hit the region''"
    using classifier_verdict_iff_keywords [of DISASTER_KEYWORDS_check "''A flood hit the region''"]
    by (simp add: eval_flood_check)
  from a b c eval_flood_curr eval_bakery_curr show ?thesis by simp
qed

text \<open>
  Claim C3. For every text, the matched keywords are the vocabulary filtered by "occurs as a
  contiguous run in the lower-cased text" (\<open>sublist\<close>, no word boundary): they come in the
  order of the vocabulary, and every keyword \<open>k\<close> is listed once if it is in the vocabulary
  and occurs in the text, and not at all otherwise, however often it occurs. The keywords of
  both vocabularies are lower-case, so the test ignores the case of the text.
\<close>

theorem matched_keywords_exact:
  "disaster_keywords DISASTER_KEYWORDS_curr text
     = filter (\<lambda>k. sublist k (lower text)) DISASTER_KEYWORDS_curr
   \<and> count_list (disaster_keywords DISASTER_KEYWORDS_curr text) k
     = (if k \<in> set DISASTER_KEYWORDS_curr \<and> sublist k (lower text) then 1 else 0)
   \<and> list_all (\<lambda>k. lower k = k) DISASTER_KEYWORDS_curr
   \<and> disaster_keywords DISASTER_KEYWORDS_check text
     = filter (\<lambda>k. sublist k (lower text)) DISASTER_KEYWORDS_check
   \<and> count_list (disaster_keywords DISASTER_KEYWORDS_check text) k
     = (if k \<in> set DISASTER_KEYWORDS_check \<and> sublist k (lower text) then 1 else 0)
   \<and> list_all (\<lambda>k. lower k = k) DISASTER_KEYWORDS_check"
  using disaster_keywords_filter [of DISASTER_KEYWORDS_curr "text"]
    disaster_keywords_filter [of DISASTER_KEYWORDS_check "text"]
    disaster_keywords_count [OF distinct_DISASTER_KEYWORDS_curr, of "text" k]
    disaster_keywords_count [OF distinct_DISASTER_KEYWORDS_check, of "text" k]
    lowercase_DISASTER_KEYWORDS_curr lowercase_DISASTER_KEYWORDS_check
  by blast

theorem matched_keywords_exact_witness:
  "disaster_keywords DISASTER_KEYWORDS_curr ''Flooding after the FLOOD: flood warning issued''
     = [''flood'', ''flooding'', ''warning'']
   \<and> filter (\<lambda>k. sublist k (lower ''Flooding after the FLOOD: flood warning issued''))
       DISASTER_KEYWORDS_curr = [''flood'', ''flooding'', ''warning'']
   \<and> count_list
       (disaster_keywords DISASTER_KEYWORDS_curr ''Flooding after the FLOOD: flood warning issued'')
       ''flood'' = 1"
proof -
  let ?t = "''Flooding after the FLOOD: flood warning issued''"
  note th = matched_keywords_exact [of ?t "''flood''"]
  have f: "filter (\<lambda>k. sublist k (lower ?t)) DISASTER_KEYWORDS_curr
             = [''flood'', ''flooding'', ''warning'']"
    using th eval_order_curr by simp
  have "sublist ''flood'' (lower ?t)"
  proof -
    have "''flood'' \<in> set (filter (\<lambda>k. sublist k (lower ?t)) DISASTER_KEYWORDS_curr)"
      unfolding f by simp
    then show ?thesis by simp
  qed
  moreover have "''flood'' \<in> set DISASTER_KEYWORDS_curr"
    by (simp add: DISASTER_KEYWORDS_curr_def)
  moreover have "count_list (disaster_keywords DISASTER_KEYWORDS_curr ?t) ''flood''
      = (if ''flood'' \<in> set DISASTER_KEYWORDS_curr \<and> sublist ''flood'' (lower ?t) then 1 else 0)"
    using th by blast
  ultimately have "count_list (disaster_keywords DISASTER_KEYWORDS_curr ?t) ''flood'' = 1"
    by simp
  with f eval_order_curr show ?thesis by simp
qed

section \<open>Properties of the location resolver\<close>

lemma finite_ner_locations: "finite (ner_locations nlp text)"
  by (simp add: ner_locations_def)

lemma ner_locations_lower:
  assumes "x \<in> ner_locations nlp text"
  shows "lower x = x"
  using assms by (auto simp: ner_locations_def lower_idem)

lemma Unknown_not_in_ner_locations: "''Unknown'' \<notin> ner_locations nlp text"
proof
  assume "''Unknown'' \<in> ner_locations nlp text"
  then have "lower ''Unknown'' = ''Unknown''" by (rule ner_locations_lower)
  then show False using lower_not_Unknown by blast
qed

lemma list_of_set_set:
  assumes "list_of_set to_list" and "finite s"
  shows "set (to_list s) = s"
  using assms by (simp add: list_of_set_def)

lemma list_of_set_distinct:
  assumes "list_of_set to_list" and "finite s"
  shows "distinct (to_list s)"
  using assms by (simp add: list_of_set_def)

lemma list_of_set_Nil_iff:
  assumes "list_of_set to_list" and "finite s"
  shows "to_list s = [] \<longleftrightarrow> s = {}"
  using list_of_set_set [OF assms] by auto

lemma list_of_set_sorted: "list_of_set sorted_list_of_set"
  by (simp add: list_of_set_def)

lemma matched_not_Unknown:
  assumes ok: "list_of_set to_list"
  shows "to_list (G \<inter> ner_locations nlp text) \<noteq> [''Unknown'']"
proof
  assume eq: "to_list (G \<inter> ner_locations nlp text) = [''Unknown'']"
  have "finite (G \<inter> ner_locations nlp text)"
    using finite_ner_locations by (rule finite_Int [OF disjI2])
  with ok have "set (to_list (G \<inter> ner_locations nlp text)) = G \<inter> ner_locations nlp text"
    by (rule list_of_set_set)
  with eq have "''Unknown'' \<in> ner_locations nlp text" by auto
  with Unknown_not_in_ner_locations show False by blast
qed

lemma extract_locations_cases:
  assumes ok: "list_of_set to_list"
  shows "extract_locations to_list nlp G text =
           (if G \<inter> ner_locations nlp text = {} then [''Unknown'']
            else to_list (G \<inter> ner_locations nlp text))"
  by (simp add: extract_locations_def Let_def)

lemma curr_components:
  "Set.filter (\<lambda>x. x \<in> G) C = G \<inter> C"
  by auto

lemma extract_locations_curr_cases:
  assumes ok: "list_of_set to_list"
  shows "extract_locations_curr to_list nlp G text =
           (if G \<inter> ner_locations nlp text = {} then [''Unknown'']
            else to_list (G \<inter> ner_locations nlp text))"
proof -
  have fin: "finite (G \<inter> ner_locations nlp text)"
    using finite_ner_locations by (rule finite_Int [OF disjI2])
  have nil: "to_list (G \<inter> ner_locations nlp text) = [] \<longleftrightarrow> G \<inter> ner_locations nlp text = {}"
    using ok fin by (rule list_of_set_Nil_iff)
  have h: "(G \<inter> ner_locations nlp text)
      \<union> (Set.filter (\<lambda>state. state \<in> G) (ner_locations nlp text)
         \<union> Set.filter (\<lambda>country. country \<in> G) (ner_locations nlp text))
      = G \<inter> ner_locations nlp text"
    unfolding curr_components by simp
  have "extract_locations_curr to_list nlp G text =
      (if to_list (G \<inter> ner_locations nlp text) \<noteq> []
       then to_list (G \<inter> ner_locations nlp text) else [''Unknown''])"
    unfolding extract_locations_curr_def Let_def h ..
  then show ?thesis using nil by simp
qed

text \<open>
  Claim C1. Let \<open>to_list\<close> be any enumeration of finite sets (\<open>list(s)\<close>). For every text,
  entity recogniser and gazetteer \<open>G\<close>, with \<open>C\<close> the set of lower-cased \<open>GPE\<close> entities of the
  text: \<open>_extract_locations\<close> returns \<open>['Unknown']\<close> exactly when \<open>G \<inter> C\<close> is empty; its
  members are \<open>Unknown\<close> alone in that case and exactly the members of \<open>G \<inter> C\<close>, each once,
  otherwise; and it never returns the empty list.
\<close>

theorem extract_locations_unknown_iff:
  assumes "list_of_set to_list"
  shows "(extract_locations to_list nlp G text = [''Unknown'']
            \<longleftrightarrow> G \<inter> ner_locations nlp text = {})
       \<and> set (extract_locations to_list nlp G text)
           = (if G \<inter> ner_locations nlp text = {} then {''Unknown''}
              else G \<inter> ner_locations nlp text)
       \<and> distinct (extract_locations to_list nlp G text)
       \<and> extract_locations to_list nlp G text \<noteq> []"
proof -
  let ?m = "G \<inter> ner_locations nlp text"
  have fin: "finite ?m"
    using finite_ner_locations by (rule finite_Int [OF disjI2])
  have s: "set (to_list ?m) = ?m" using assms fin by (rule list_of_set_set)
  have d: "distinct (to_list ?m)" using assms fin by (rule list_of_set_distinct)
  have n: "to_list ?m = [] \<longleftrightarrow> ?m = {}" using assms fin by (rule list_of_set_Nil_iff)
  have u: "to_list ?m \<noteq> [''Unknown'']" using assms by (rule matched_not_Unknown)
  show ?thesis
    unfolding extract_locations_cases [OF assms] using s d n u by simp
qed

theorem extract_locations_unknown_iff_witness:
  "list_of_set sorted_list_of_set
   \<and> set (extract_locations sorted_list_of_set
        (\<lambda>text. [\<lparr>ent_text = ''Odisha'', ent_label = ''GPE''\<rparr>,
                  \<lparr>ent_text = ''Cyclone'', ent_label = ''EVENT''\<rparr>])
        {''odisha'', ''delhi''} ''Cyclone hits Odisha'') = {''odisha''}
   \<and> extract_locations sorted_list_of_set
        (\<lambda>text. [\<lparr>ent_text = ''Odisha'', ent_label = ''GPE''\<rparr>,
                  \<lparr>ent_text = ''Cyclone'', ent_label = ''EVENT''\<rparr>])
        {''delhi''} ''Cyclone hits Odisha'' = [''Unknown'']"
proof -
  let ?nlp = "\<lambda>text :: string. [\<lparr>ent_text = ''Odisha'', ent_label = ''GPE''\<rparr>,
                  \<lparr>ent_text = ''Cyclone'', ent_label = ''EVENT''\<rparr>]"
  have ner: "ner_locations ?nlp ''Cyclone hits Odisha'' = {''odisha''}"
    by (simp add: ner_locations_def lower_eval Let_def del: set_filter)
  have a: "{''odisha'', ''delhi''} \<inter> ner_locations ?nlp ''Cyclone hits Odisha'' = {''odisha''}"
    unfolding ner by simp
  have b: "{''delhi''} \<inter> ner_locations ?nlp ''Cyclone hits Odisha'' = {}"
    unfolding ner by simp
  note t1 = extract_locations_unknown_iff [OF list_of_set_sorted, of ?nlp "{''odisha'', ''delhi''}"
      "''Cyclone hits Odisha''"]
  note t2 = extract_locations_unknown_iff [OF list_of_set_sorted, of ?nlp "{''delhi''}"
      "''Cyclone hits Odisha''"]
  have c: "set (extract_locations sorted_list_of_set ?nlp {''odisha'', ''delhi''}
      ''Cyclone hits Odisha'') = {''odisha''}"
    using t1 unfolding a by simp
  have d: "extract_locations sorted_list_of_set ?nlp {''delhi''} ''Cyclone hits Odisha''
      = [''Unknown'']"
    using t2 unfolding b by simp
  from list_of_set_sorted c d show ?thesis by blast
qed

text \<open>
  Claim C10. For every text, recogniser and gazetteer, each of the three sets that
  \<open>jsonCURR.py\<close> computes is the plain intersection of the gazetteer with the candidate set,
  and so is their union. Whatever the two enumerations \<open>to_list\<close> and \<open>to_list'\<close> are, the
  result of \<open>jsonCURR.py\<close> and the result of \<open>check.py\<close> have the same members, and one is
  \<open>['Unknown']\<close> exactly when the other is; with one and the same enumeration the two results
  are the same list.
\<close>

theorem extract_locations_curr_equiv:
  assumes "list_of_set to_list" and "list_of_set to_list'"
  shows "Set.filter (\<lambda>state. state \<in> G) (ner_locations nlp text) = G \<inter> ner_locations nlp text
       \<and> (G \<inter> ner_locations nlp text)
           \<union> (Set.filter (\<lambda>state. state \<in> G) (ner_locations nlp text)
              \<union> Set.filter (\<lambda>country. country \<in> G) (ner_locations nlp text))
           = G \<inter> ner_locations nlp text
       \<and> set (extract_locations_curr to_list nlp G text)
           = set (extract_locations to_list' nlp G text)
       \<and> (extract_locations_curr to_list nlp G text = [''Unknown'']
            \<longleftrightarrow> extract_locations to_list' nlp G text = [''Unknown''])
       \<and> extract_locations_curr to_list nlp G text = extract_locations to_list nlp G text"
proof -
  let ?m = "G \<inter> ner_locations nlp text"
  have fin: "finite ?m"
    using finite_ner_locations by (rule finite_Int [OF disjI2])
  have s: "set (to_list ?m) = ?m" using assms(1) fin by (rule list_of_set_set)
  have s': "set (to_list' ?m) = ?m" using assms(2) fin by (rule list_of_set_set)
  have u: "to_list ?m \<noteq> [''Unknown'']" using assms(1) by (rule matched_not_Unknown)
  have u': "to_list' ?m \<noteq> [''Unknown'']" using assms(2) by (rule matched_not_Unknown)
  have 1: "Set.filter (\<lambda>state. state \<in> G) (ner_locations nlp text) = ?m"
    by (rule curr_components)
  have 2: "?m \<union> (Set.filter (\<lambda>state. state \<in> G) (ner_locations nlp text)
              \<union> Set.filter (\<lambda>country. country \<in> G) (ner_locations nlp text)) = ?m"
    unfolding curr_components by simp
  have 3: "set (extract_locations_curr to_list nlp G text)
           = set (extract_locations to_list' nlp G text)"
    unfolding extract_locations_curr_cases [OF assms(1)] extract_locations_cases [OF assms(2)]
    using s s' by simp
  have 4: "extract_locations_curr to_list nlp G text = [''Unknown'']
            \<longleftrightarrow> extract_locations to_list' nlp G text = [''Unknown'']"
    unfolding extract_locations_curr_cases [OF assms(1)] extract_locations_cases [OF assms(2)]
    using u u' by simp
  have 5: "extract_locations_curr to_list nlp G text = extract_locations to_list nlp G text"
    unfolding extract_locations_curr_cases [OF assms(1)] extract_locations_cases [OF assms(1)]
    by simp
  from 1 2 3 4 5 show ?thesis by blast
qed

theorem extract_locations_curr_equiv_witness:
  "list_of_set sorted_list_of_set \<and> list_of_set (\<lambda>s. rev (sorted_list_of_set s))
   \<and> set (extract_locations_curr sorted_list_of_set
        (\<lambda>text. [\<lparr>ent_text = ''Odisha'', ent_label = ''GPE''\<rparr>,
                  \<lparr>ent_text = ''Delhi'', ent_label = ''GPE''\<rparr>])
        {''odisha'', ''delhi'', ''goa''} ''Odisha and Delhi'')
     = set (extract_locations (\<lambda>s. rev (sorted_list_of_set s))
        (\<lambda>text. [\<lparr>ent_text = ''Odisha'', ent_label = ''GPE''\<rparr>,
                  \<lparr>ent_text = ''Delhi'', ent_label = ''GPE''\<rparr>])
        {''odisha'', ''delhi'', ''goa''} ''Odisha and Delhi'')
   \<and> set (extract_locations_curr sorted_list_of_set
        (\<lambda>text. [\<lparr>ent_text = ''Odisha'', ent_label = ''GPE''\<rparr>,
                  \<lparr>ent_text = ''Delhi'', ent_label = ''GPE''\<rparr>])
        {''odisha'', ''delhi'', ''goa''} ''Odisha and Delhi'') = {''odisha'', ''delhi''}"
proof -
  let ?nlp = "\<lambda>text :: string. [\<lparr>ent_text = ''Odisha'', ent_label = ''GPE''\<rparr>,
                  \<lparr>ent_text = ''Delhi'', ent_label = ''GPE''\<rparr>]"
  let ?G = "{''odisha'', ''delhi'', ''goa''}"
  have r: "list_of_set (\<lambda>s. rev (sorted_list_of_set s))"
    by (simp add: list_of_set_def)
  note t = extract_locations_curr_equiv [OF list_of_set_sorted r, of ?G ?nlp "''Odisha and Delhi''"]
  have ner: "ner_locations ?nlp ''Odisha and Delhi'' = {''odisha'', ''delhi''}"
    by (simp add: ner_locations_def lower_eval Let_def del: set_filter)
  have m: "?G \<inter> ner_locations ?nlp ''Odisha and Delhi'' = {''odisha'', ''delhi''}"
    unfolding ner by auto
  have "set (extract_locations_curr sorted_list_of_set ?nlp ?G ''Odisha and Delhi'')
      = {''odisha'', ''delhi''}"
    unfolding extract_locations_curr_cases [OF list_of_set_sorted] m by (simp add: insert_commute)
  with t list_of_set_sorted r show ?thesis by blast
qed

section \<open>Properties of \<open>strip\<close>\<close>

lemma isspace_lower_char: "isspace (lower_char c) = isspace c"
  by (auto simp: lower_char_def ascii_uppercase_def ascii_lowercase_def
      latin1_uppercase_def latin1_lowercase_def isspace_def split: option.splits if_splits)

lemma rstrip_Cons:
  "rstrip (x # xs) =
     (if \<forall>y\<in>set xs. isspace y then (if isspace x then [] else [x]) else x # rstrip xs)"
  by (simp add: rstrip_def dropWhile_append)

lemma lstrip_fixed_hd:
  assumes "lstrip (x # xs) = x # xs"
  shows "\<not> isspace x"
proof
  assume "isspace x"
  with assms have "dropWhile isspace xs = x # xs" by (simp add: lstrip_def)
  then have "length (dropWhile isspace xs) = Suc (length xs)" by simp
  moreover have "length (dropWhile isspace xs) \<le> length xs" by (rule length_dropWhile_le)
  ultimately show False by simp
qed

lemma lstrip_rstrip_fixed:
  assumes "lstrip t = t"
  shows "lstrip (rstrip t) = rstrip t"
proof (cases t)
  case Nil
  then show ?thesis by (simp add: lstrip_def rstrip_def)
next
  case (Cons x xs)
  with assms have "\<not> isspace x" using lstrip_fixed_hd by blast
  then show ?thesis unfolding Cons rstrip_Cons by (simp add: lstrip_def)
qed

lemma rstrip_idem: "rstrip (rstrip s) = rstrip s"
  by (simp add: rstrip_def)

lemma lstrip_idem: "lstrip (lstrip s) = lstrip s"
  by (simp add: lstrip_def)

lemma strip_idem: "strip (strip s) = strip s"
  by (simp add: strip_def lstrip_rstrip_fixed [OF lstrip_idem] rstrip_idem)

lemma strip_lower: "strip (lower s) = lower (strip s)"
proof -
  have eq: "isspace \<circ> lower_char = isspace" by (auto simp: isspace_lower_char)
  show ?thesis
    by (simp add: strip_def lstrip_def rstrip_def lower_def dropWhile_map rev_map eq)
qed

lemmas strip_eval = strip_def lstrip_def rstrip_def isspace_def

section \<open>Properties of the gazetteer\<close>

lemma set_dropna: "set (dropna cells) = {v. Some v \<in> set cells}"
proof (induction cells)
  case Nil
  show ?case by (simp add: dropna_def List.map_filter_simps)
next
  case (Cons c cells)
  then show ?case by (cases c) (auto simp: dropna_def List.map_filter_simps)
qed

lemma update_column_Inr:
  assumes "update_column f df c S = Inr S'"
  shows "S' = S \<union> f ` column_values df c"
  using assms
  by (auto simp: update_column_def str_values_def column_values_def
      split: option.splits column.splits sum.splits)

lemma update_columns_Inr:
  assumes "update_columns f df cs S = Inr S'"
  shows "S' = S \<union> f ` (\<Union>c\<in>set cs. column_values df c)"
  using assms
proof (induction cs arbitrary: S)
  case Nil
  then show ?case by simp
next
  case (Cons c cs)
  then obtain S1 where 1: "update_column f df c S = Inr S1"
    and 2: "update_columns f df cs S1 = Inr S'"
    by (auto split: sum.splits)
  from update_column_Inr [OF 1] Cons.IH [OF 2] show ?case by auto
qed

lemma load_cities_check_subset:
  assumes "read_csv env f = Inr df"
  shows "load_cities_check env f
           \<subseteq> lower ` (column_values df ''name'' \<union> column_values df ''country''
                       \<union> column_values df ''subcountry'')"
  using assms
  by (auto simp: load_cities_check_def simp del: update_columns.simps
      split: sum.splits dest!: update_columns_Inr)

lemma load_cities_depre_subset:
  assumes "read_csv env f = Inr df"
  shows "load_cities_depre env f
           \<subseteq> lower ` (column_values df ''name'' \<union> column_values df ''country''
                       \<union> column_values df ''subcountry'')"
  using assms
  by (auto simp: load_cities_depre_def simp del: update_columns.simps
      split: sum.splits dest!: update_columns_Inr)

lemma load_cities_app_subset:
  assumes "read_csv env f = Inr df"
  shows "load_cities_app env f
           \<subseteq> lower ` (column_values df ''name'' \<union> column_values df ''subcountry'')"
  using assms
  by (auto simp: load_cities_app_def split: sum.splits dest!: update_column_Inr)

lemma load_cities_failed:
  assumes "read_csv env f = Inl e"
  shows "load_cities_check env f = {}" and "load_cities_app env f = {}"
    and "load_cities_depre env f = {}"
  using assms by (simp_all add: load_cities_check_def load_cities_app_def load_cities_depre_def)

text \<open>
  What \<open>jsonCURR.py\<close> builds when it returns: the non-missing values of \<open>City\<close> and
  \<open>State\<close>, stripped and lower-cased; every member is its own stripped, lower-cased form.
\<close>

lemma load_cities_curr_exact:
  assumes "read_csv env f = Inr df" and "load_cities_curr env f = Inr S"
  shows "S = (\<lambda>v. lower (strip v)) ` (column_values df ''City'' \<union> column_values df ''State'')"
  using assms
  by (auto simp: load_cities_curr_def split: sum.splits dest!: update_column_Inr)

lemma load_cities_curr_normalized:
  assumes "load_cities_curr env f = Inr S" and "x \<in> S"
  shows "strip x = x \<and> lower x = x"
proof -
  from assms(1) obtain df where df: "read_csv env f = Inr df"
    by (auto simp: load_cities_curr_def split: sum.splits)
  from load_cities_curr_exact [OF df assms(1)] assms(2)
  obtain v where "x = lower (strip v)" by auto
  then show ?thesis by (simp add: strip_lower strip_idem lower_idem)
qed

text \<open>
  Claim C6 (the code of \<open>app.py\<close>, \<open>check.py\<close> and \<open>jsonDEPRE.py\<close> at a table whose column
  \<open>name\<close> holds the value \<open>" Paris "\<close> and a missing value). The three loaders lower-case the
  value and keep its surrounding blanks, so the gazetteer holds \<open>" paris "\<close>, which is not a
  trimmed string; \<open>jsonCURR.py\<close>, given the same cells in its column \<open>City\<close>, holds \<open>"paris"\<close>.
\<close>

theorem load_cities_keeps_blanks:
  "load_cities_app
     \<lparr>path_exists = (\<lambda>p. True),
      read_csv = (\<lambda>p. Inr ((\<lambda>c. None)(''name'' \<mapsto> TextColumn [Some '' Paris '', None])))\<rparr>
     ''world-cities.csv'' = {'' paris ''}
   \<and> load_cities_check
     \<lparr>path_exists = (\<lambda>p. True),
      read_csv = (\<lambda>p. Inr ((\<lambda>c. None)(''name'' \<mapsto> TextColumn [Some '' Paris '', None])))\<rparr>
     ''world-cities.csv'' = {'' paris ''}
   \<and> load_cities_depre
     \<lparr>path_exists = (\<lambda>p. True),
      read_csv = (\<lambda>p. Inr ((\<lambda>c. None)(''name'' \<mapsto> TextColumn [Some '' Paris '', None])))\<rparr>
     ''world-cities.csv'' = {'' paris ''}
   \<and> strip '' paris '' = ''paris''
   \<and> load_cities_curr
     \<lparr>path_exists = (\<lambda>p. True),
      read_csv = (\<lambda>p. Inr ((\<lambda>c. None)(''City'' \<mapsto> TextColumn [Some '' Paris '', None])))\<rparr>
     ''states.csv'' = Inr {''paris''}"
  by (simp add: load_cities_app_def load_cities_check_def load_cities_depre_def
      load_cities_curr_def update_column_def str_values_def dropna_def lower_eval
      List.map_filter_simps strip_eval)

text \<open>
  Claim C7, as amended. Whenever \<open>read_csv\<close> raises (the file is missing, unreadable or
  empty), \<open>_load_cities\<close> of \<open>check.py\<close>, \<open>app.py\<close> and \<open>jsonDEPRE.py\<close> returns the empty set
  and raises nothing; so it does for a table in which the recognised columns have no value.
  The constructor of \<open>jsonDEPRE.py\<close> raises \<open>FileNotFoundError\<close> when the path does not
  exist, and otherwise keeps that empty set. With an empty gazetteer, \<open>_extract_locations\<close>
  returns \<open>['Unknown']\<close> (\<open>'Unknown'\<close> in \<open>app.py\<close>) for every text.
\<close>

theorem load_cities_failure_empty:
  "(read_csv env f = Inl e \<longrightarrow>
      load_cities_check env f = {} \<and> load_cities_app env f = {}
      \<and> load_cities_depre env f = {}
      \<and> init_depre env f = (if path_exists env f then Inr {} else Inl FileNotFoundError))
   \<and> (read_csv env f = Inr df \<and> column_values df ''name'' = {}
        \<and> column_values df ''country'' = {} \<and> column_values df ''subcountry'' = {} \<longrightarrow>
      load_cities_check env f = {} \<and> load_cities_app env f = {}
      \<and> load_cities_depre env f = {}
      \<and> init_depre env f = (if path_exists env f then Inr {} else Inl FileNotFoundError))
   \<and> extract_locations to_list nlp {} text = [''Unknown'']
   \<and> extract_locations_app to_list nlp {} text = ''Unknown''"
proof -
  have a: "load_cities_check env f = {} \<and> load_cities_app env f = {}
      \<and> load_cities_depre env f = {}
      \<and> init_depre env f = (if path_exists env f then Inr {} else Inl FileNotFoundError)"
    if "read_csv env f = Inl e"
    using load_cities_failed [OF that] by (simp add: init_depre_def)
  have b: "load_cities_check env f = {} \<and> load_cities_app env f = {}
      \<and> load_cities_depre env f = {}
      \<and> init_depre env f = (if path_exists env f then Inr {} else Inl FileNotFoundError)"
    if r: "read_csv env f = Inr df" and n: "column_values df ''name'' = {}"
      "column_values df ''country'' = {}" "column_values df ''subcountry'' = {}"
    using load_cities_check_subset [OF r] load_cities_app_subset [OF r]
      load_cities_depre_subset [OF r] n
    by (simp add: init_depre_def)
  have c: "extract_locations to_list nlp {} text = [''Unknown'']"
    by (simp add: extract_locations_def)
  have d: "extract_locations_app to_list nlp {} text = ''Unknown''"
    by (simp add: extract_locations_app_def)
  from a b c d show ?thesis by blast
qed

theorem load_cities_failure_empty_witness:
  "read_csv \<lparr>path_exists = (\<lambda>p. True), read_csv = (\<lambda>p. Inl EmptyDataError)\<rparr> ''world-cities.csv''
     = Inl EmptyDataError
   \<and> load_cities_check \<lparr>path_exists = (\<lambda>p. True), read_csv = (\<lambda>p. Inl EmptyDataError)\<rparr>
       ''world-cities.csv'' = {}
   \<and> init_depre \<lparr>path_exists = (\<lambda>p. True), read_csv = (\<lambda>p. Inl EmptyDataError)\<rparr>
       ''world-cities.csv'' = Inr {}
   \<and> column_values ((\<lambda>c. None)(''id'' \<mapsto> OtherColumn, ''name'' \<mapsto> TextColumn [None])) ''name'' = {}
   \<and> load_cities_app
       \<lparr>path_exists = (\<lambda>p. True),
        read_csv = (\<lambda>p. Inr ((\<lambda>c. None)(''id'' \<mapsto> OtherColumn, ''name'' \<mapsto> TextColumn [None])))\<rparr>
       ''world-cities.csv'' = {}"
proof -
  let ?e1 = "\<lparr>path_exists = (\<lambda>p :: string. True),
              read_csv = (\<lambda>p :: string. Inl EmptyDataError :: py_error + dataframe)\<rparr>"
  let ?df = "(\<lambda>c. None)(''id'' \<mapsto> OtherColumn, ''name'' \<mapsto> TextColumn [None]) :: dataframe"
  let ?e2 = "\<lparr>path_exists = (\<lambda>p :: string. True), read_csv = (\<lambda>p :: string. Inr ?df)\<rparr>"
  have r1: "read_csv ?e1 ''world-cities.csv'' = Inl EmptyDataError" by simp
  have r2: "read_csv ?e2 ''world-cities.csv'' = Inr ?df" by simp
  have n: "column_values ?df ''name'' = {}" "column_values ?df ''country'' = {}"
    "column_values ?df ''subcountry'' = {}"
    by (simp_all add: column_values_def dropna_def List.map_filter_simps)
  note t1 = load_cities_failure_empty [of ?e1 "''world-cities.csv''" EmptyDataError]
  note t2 = load_cities_failure_empty [of ?e2 "''world-cities.csv''" _ ?df]
  from t1 r1 have "load_cities_check ?e1 ''world-cities.csv'' = {}"
    and "init_depre ?e1 ''world-cities.csv'' = Inr {}" by simp_all
  moreover from t2 r2 n have "load_cities_app ?e2 ''world-cities.csv'' = {}" by blast
  ultimately show ?thesis using r1 n(1) by simp
qed

text \<open>
  Claim C7 as stated fails: with a path that does not exist, the constructor of
  \<open>jsonDEPRE.py\<close> raises \<open>FileNotFoundError\<close> and builds no gazetteer.
\<close>

theorem init_depre_missing_file_raises:
  "init_depre \<lparr>path_exists = (\<lambda>p. False), read_csv = (\<lambda>p. Inl FileNotFoundError)\<rparr>
     ''world-cities.csv'' = Inl FileNotFoundError
   \<and> (\<nexists>cities. init_depre \<lparr>path_exists = (\<lambda>p. False), read_csv = (\<lambda>p. Inl FileNotFoundError)\<rparr>
     ''world-cities.csv'' = Inr cities)"
  by (simp add: init_depre_def)

section \<open>Properties of the pipeline driver\<close>

lemma item_check_eq:
  "item_check to_list nlp cities url e =
     (if is_disaster_related DISASTER_KEYWORDS_check (combined_text_of e)
      then (case nlp (combined_text_of e) of
              Inl err \<Rightarrow> Inl err
            | Inr doc_ents \<Rightarrow> Inr (produced_check to_list nlp cities url e))
      else Inr None)"
  by (simp add: item_check_def produced_check_def with_nlp_def combined_text_of_def Let_def
      split: sum.splits)

lemma produced_check_iff:
  "produced_check to_list nlp cities url e \<noteq> None
     \<longleftrightarrow> is_disaster_related DISASTER_KEYWORDS_check (combined_text_of e) \<and> nlp_returns nlp e"
  by (simp add: item_check_def produced_check_def with_nlp_def combined_text_of_def
      nlp_returns_def Let_def split: sum.splits)

lemma item_check_Inr:
  assumes "is_disaster_related DISASTER_KEYWORDS_check (combined_text_of e)
      \<longrightarrow> nlp_returns nlp e"
  shows "item_check to_list nlp cities url e = Inr (produced_check to_list nlp cities url e)"
  using assms
  by (simp add: item_check_def produced_check_def with_nlp_def combined_text_of_def
      nlp_returns_def Let_def split: sum.splits)

lemma item_check_Inl:
  assumes "is_disaster_related DISASTER_KEYWORDS_check (combined_text_of e)"
    and "\<not> nlp_returns nlp e"
  shows "\<exists>err. item_check to_list nlp cities url e = Inl err"
  using assms
  by (simp add: item_check_def with_nlp_def combined_text_of_def
      nlp_returns_def Let_def split: sum.splits)

lemma loop_check_acc:
  "fst (loop_check to_list nlp cities url acc entries)
     = acc @ List.map_filter (produced_check to_list nlp cities url)
         (takeWhile (\<lambda>e. is_disaster_related DISASTER_KEYWORDS_check (combined_text_of e)
                           \<longrightarrow> nlp_returns nlp e) entries)"
proof (induction entries arbitrary: acc)
  case Nil
  show ?case by (simp add: List.map_filter_simps)
next
  case (Cons e entries)
  show ?case
  proof (cases "is_disaster_related DISASTER_KEYWORDS_check (combined_text_of e)
      \<longrightarrow> nlp_returns nlp e")
    case True
    from item_check_Inr [OF True, of to_list cities url] Cons.IH True show ?thesis
      by (cases "produced_check to_list nlp cities url e")
        (simp_all add: List.map_filter_simps)
  next
    case False
    then obtain err where "item_check to_list nlp cities url e = Inl err"
      using item_check_Inl [of e nlp to_list cities url] by blast
    with False show ?thesis by (simp add: List.map_filter_simps)
  qed
qed

lemma fetch_feed_check_eq:
  assumes "http url = Inr entries"
  shows "fetch_feed_check to_list nlp cities http url
     = List.map_filter (produced_check to_list nlp cities url)
         (takeWhile (\<lambda>e. is_disaster_related DISASTER_KEYWORDS_check (combined_text_of e)
                           \<longrightarrow> nlp_returns nlp e) entries)"
  using assms loop_check_acc [of to_list nlp cities url "[]" entries]
  by (simp add: fetch_feed_check_def case_prod_beta)

lemma produced_curr_iff:
  "produced_curr to_list nlp cities url e \<noteq> None
     \<longleftrightarrow> well_formed e \<and> is_disaster_related DISASTER_KEYWORDS_curr (combined_text_of e)
         \<and> nlp_returns nlp e"
  by (auto simp: produced_curr_def item_curr_def well_formed_def combined_text_of_def
      text_or_empty_def with_nlp_def nlp_returns_def Let_def split: option.splits sum.splits)

lemma item_curr_caught:
  assumes "well_formed e \<and> is_disaster_related DISASTER_KEYWORDS_curr (combined_text_of e)
      \<longrightarrow> \<not> nlp_escapes nlp e"
  shows "item_curr to_list nlp cities url e = Inr (produced_curr to_list nlp cities url e)
       \<or> item_curr to_list nlp cities url e = Inl AttributeError
         \<and> produced_curr to_list nlp cities url e = None"
  using assms
  by (auto simp: produced_curr_def item_curr_def combined_text_of_def well_formed_def
      text_or_empty_def with_nlp_def nlp_escapes_def Let_def split: option.splits sum.splits)

lemma item_curr_raises:
  assumes "well_formed e" and "is_disaster_related DISASTER_KEYWORDS_curr (combined_text_of e)"
    and "nlp (combined_text_of e) = Inl err"
  shows "item_curr to_list nlp cities url e = Inl err"
  using assms
  by (auto simp: item_curr_def well_formed_def combined_text_of_def
      text_or_empty_def with_nlp_def Let_def split: option.splits sum.splits)

lemma loop_curr_append:
  assumes "list_all (\<lambda>e. well_formed e
      \<and> is_disaster_related DISASTER_KEYWORDS_curr (combined_text_of e)
      \<longrightarrow> \<not> nlp_escapes nlp e) pre"
  shows "loop_curr to_list nlp cities url acc (pre @ rest)
     = loop_curr to_list nlp cities url
         (acc @ List.map_filter (produced_curr to_list nlp cities url) pre) rest"
  using assms
proof (induction pre arbitrary: acc)
  case Nil
  show ?case by (simp add: List.map_filter_simps)
next
  case (Cons e pre)
  then have r: "well_formed e \<and> is_disaster_related DISASTER_KEYWORDS_curr (combined_text_of e)
      \<longrightarrow> \<not> nlp_escapes nlp e"
    and p: "list_all (\<lambda>e. well_formed e
      \<and> is_disaster_related DISASTER_KEYWORDS_curr (combined_text_of e)
      \<longrightarrow> \<not> nlp_escapes nlp e) pre" by simp_all
  from item_curr_caught [OF r, of to_list cities url] show ?case
  proof
    assume a: "item_curr to_list nlp cities url e = Inr (produced_curr to_list nlp cities url e)"
    show ?thesis
      using a Cons.IH [OF p]
      by (cases "produced_curr to_list nlp cities url e") (simp_all add: List.map_filter_simps)
  next
    assume a: "item_curr to_list nlp cities url e = Inl AttributeError
         \<and> produced_curr to_list nlp cities url e = None"
    show ?thesis using a Cons.IH [OF p] by (simp add: List.map_filter_simps)
  qed
qed

lemma loop_curr_returns:
  assumes "list_all (\<lambda>e. well_formed e
      \<and> is_disaster_related DISASTER_KEYWORDS_curr (combined_text_of e)
      \<longrightarrow> \<not> nlp_escapes nlp e) entries"
  shows "loop_curr to_list nlp cities url [] entries
     = (List.map_filter (produced_curr to_list nlp cities url) entries, None)"
  using loop_curr_append [OF assms, of to_list cities url "[]" "[]"] by simp

lemma loop_curr_raises:
  assumes "list_all (\<lambda>e. well_formed e
      \<and> is_disaster_related DISASTER_KEYWORDS_curr (combined_text_of e)
      \<longrightarrow> \<not> nlp_escapes nlp e) pre" and "well_formed x"
    and "is_disaster_related DISASTER_KEYWORDS_curr (combined_text_of x)"
    and "nlp (combined_text_of x) = Inl err" and "err \<noteq> AttributeError"
  shows "loop_curr to_list nlp cities url [] (pre @ x # post)
     = (List.map_filter (produced_curr to_list nlp cities url) pre, Some err)"
  using loop_curr_append [OF assms(1), of to_list cities url "[]" "x # post"]
    item_curr_raises [where nlp = nlp and e = x, OF assms(2,3,4), of to_list cities url] assms(5)
  by simp

lemma parse_date_logged_count:
  "count_list (snd (parse_date_logged p)) (WARNING (''Error parsing entry in '' @ url)) = 0"
  by (simp add: parse_date_logged_def split: sum.splits)

lemma item_app_not_well_formed:
  assumes "\<not> well_formed e"
  shows "item_app to_list nlp cities url e = (Inl AttributeError, [])"
  using assms by (auto simp: item_app_def well_formed_def split: option.splits)

lemma item_app_well_formed:
  assumes "well_formed e"
  shows "\<exists>l. count_list l (WARNING (''Error parsing entry in '' @ url)) = 0
      \<and> (case nlp (combined_text_of e) of
            Inl err \<Rightarrow> item_app to_list nlp cities url e = (Inl err, l)
          | Inr doc_ents \<Rightarrow>
              (\<exists>r. item_app to_list nlp cities url e = (Inr r, l)
                 \<and> Title r = strip (the (find_title e))))"
proof -
  from assms obtain t d l p where f: "find_title e = Some t" "find_description e = Some d"
    "find_link e = Some l" "find_pubDate e = Some p"
    by (auto simp: well_formed_def)
  obtain dt lg where pl: "parse_date_logged p = (dt, lg)" by (cases "parse_date_logged p")
  have "count_list lg (WARNING (''Error parsing entry in '' @ url)) = 0"
    using parse_date_logged_count [of p url] pl by simp
  moreover have "case nlp (combined_text_of e) of
            Inl err \<Rightarrow> item_app to_list nlp cities url e = (Inl err, lg)
          | Inr doc_ents \<Rightarrow>
              (\<exists>r. item_app to_list nlp cities url e = (Inr r, lg)
                 \<and> Title r = strip (the (find_title e)))"
    by (simp add: item_app_def f pl Let_def with_nlp_def combined_text_of_def text_or_empty_def
        split: sum.splits)
  ultimately show ?thesis by blast
qed

lemma produced_app_iff:
  "produced_app to_list nlp cities url e \<noteq> None \<longleftrightarrow> well_formed e \<and> nlp_returns nlp e"
proof (cases "well_formed e")
  case True
  from item_app_well_formed [OF True, where url = url and nlp = nlp and to_list = to_list and cities = cities] True show ?thesis
    by (auto simp: produced_app_def nlp_returns_def split: sum.splits)
next
  case False
  from item_app_not_well_formed [OF False, of to_list nlp cities url] False show ?thesis
    by (simp add: produced_app_def)
qed

lemma item_app_caught:
  assumes "well_formed e \<longrightarrow> \<not> nlp_escapes nlp e"
  shows "\<exists>l. count_list l (WARNING (''Error parsing entry in '' @ url)) = 0
      \<and> ((\<exists>r. item_app to_list nlp cities url e = (Inr r, l)
             \<and> produced_app to_list nlp cities url e = Some r)
         \<or> item_app to_list nlp cities url e = (Inl AttributeError, l)
             \<and> produced_app to_list nlp cities url e = None)"
proof (cases "well_formed e")
  case True
  with assms have n: "\<not> nlp_escapes nlp e" by simp
  from item_app_well_formed [OF True, where url = url and nlp = nlp and to_list = to_list and cities = cities] n show ?thesis
    by (auto simp: produced_app_def nlp_escapes_def split: sum.splits)
next
  case False
  from item_app_not_well_formed [OF False, of to_list nlp cities url] show ?thesis
    by (simp add: produced_app_def)
qed

lemma loop_app_append:
  assumes "list_all (\<lambda>e. well_formed e \<longrightarrow> \<not> nlp_escapes nlp e) pre"
  shows "\<exists>log'. loop_app to_list nlp cities url (items, log) (pre @ rest)
       = loop_app to_list nlp cities url
           (items @ List.map_filter (produced_app to_list nlp cities url) pre, log @ log') rest
     \<and> count_list log' (WARNING (''Error parsing entry in '' @ url))
       = length (filter (\<lambda>e. produced_app to_list nlp cities url e = None) pre)"
  using assms
proof (induction pre arbitrary: items log)
  case Nil
  show ?case by (rule exI [of _ "[]"]) (simp add: List.map_filter_simps)
next
  case (Cons e pre)
  let ?W = "WARNING (''Error parsing entry in '' @ url)"
  let ?P = "produced_app to_list nlp cities url"
  from Cons.prems have c: "well_formed e \<longrightarrow> \<not> nlp_escapes nlp e"
    and p: "list_all (\<lambda>e. well_formed e \<longrightarrow> \<not> nlp_escapes nlp e) pre" by simp_all
  from item_app_caught [OF c, where url = url and to_list = to_list and cities = cities] obtain l where l: "count_list l ?W = 0"
    and d: "(\<exists>r. item_app to_list nlp cities url e = (Inr r, l) \<and> ?P e = Some r)
         \<or> item_app to_list nlp cities url e = (Inl AttributeError, l) \<and> ?P e = None"
    by blast
  from d show ?case
  proof
    assume "\<exists>r. item_app to_list nlp cities url e = (Inr r, l) \<and> ?P e = Some r"
    then obtain r where r: "item_app to_list nlp cities url e = (Inr r, l)"
      and pr: "?P e = Some r" by blast
    from Cons.IH [OF p, of "items @ [r]" "log @ l"]
    obtain log' where
      1: "loop_app to_list nlp cities url (items @ [r], log @ l) (pre @ rest)
          = loop_app to_list nlp cities url
              ((items @ [r]) @ List.map_filter ?P pre, (log @ l) @ log') rest"
      and 2: "count_list log' ?W = length (filter (\<lambda>e. ?P e = None) pre)"
      by blast
    have "loop_app to_list nlp cities url (items, log) ((e # pre) @ rest)
        = loop_app to_list nlp cities url
            (items @ List.map_filter ?P (e # pre), log @ (l @ log')) rest"
      using r 1 pr by (simp add: List.map_filter_simps)
    moreover have "count_list (l @ log') ?W = length (filter (\<lambda>e. ?P e = None) (e # pre))"
      using l 2 pr by simp
    ultimately show ?thesis by blast
  next
    assume a: "item_app to_list nlp cities url e = (Inl AttributeError, l) \<and> ?P e = None"
    from Cons.IH [OF p, of items "log @ l @ [?W]"]
    obtain log' where
      1: "loop_app to_list nlp cities url (items, log @ l @ [?W]) (pre @ rest)
          = loop_app to_list nlp cities url
              (items @ List.map_filter ?P pre, (log @ l @ [?W]) @ log') rest"
      and 2: "count_list log' ?W = length (filter (\<lambda>e. ?P e = None) pre)"
      by blast
    have "loop_app to_list nlp cities url (items, log) ((e # pre) @ rest)
        = loop_app to_list nlp cities url
            (items @ List.map_filter ?P (e # pre), log @ (l @ ?W # log')) rest"
      using a 1 by (simp add: List.map_filter_simps)
    moreover have "count_list (l @ ?W # log') ?W
        = length (filter (\<lambda>e. ?P e = None) (e # pre))"
      using l 2 a by simp
    ultimately show ?thesis by blast
  qed
qed

lemma fetch_feed_app_returns:
  assumes "http url = Inr entries"
    and "list_all (\<lambda>e. well_formed e \<longrightarrow> \<not> nlp_escapes nlp e) entries"
  shows "\<exists>log. fetch_feed_app to_list nlp cities http url
       = (Inr (List.map_filter (produced_app to_list nlp cities url) entries), log)
     \<and> count_list log (WARNING (''Error parsing entry in '' @ url))
       = length (filter (\<lambda>e. produced_app to_list nlp cities url e = None) entries)"
  using loop_app_append [OF assms(2), of to_list cities url "[]" "[]" "[]"] assms(1)
  by (auto simp: fetch_feed_app_def)

lemma fetch_feed_app_raises:
  assumes "http url = Inr (pre @ x # post)"
    and "list_all (\<lambda>e. well_formed e \<longrightarrow> \<not> nlp_escapes nlp e) pre"
    and "well_formed x" and "nlp (combined_text_of x) = Inl err" and "err \<noteq> AttributeError"
  shows "fst (fetch_feed_app to_list nlp cities http url)
     = (if err = RequestException
        then Inr (List.map_filter (produced_app to_list nlp cities url) pre) else Inl err)"
proof -
  from loop_app_append [OF assms(2), of to_list cities url "[]" "[]" "x # post"]
  obtain log' where 1: "loop_app to_list nlp cities url ([], []) (pre @ x # post)
       = loop_app to_list nlp cities url
           (List.map_filter (produced_app to_list nlp cities url) pre, log') (x # post)"
    by auto
  from item_app_well_formed [OF assms(3), where url = url and nlp = nlp and to_list = to_list and cities = cities] assms(4)
  obtain l where 2: "item_app to_list nlp cities url x = (Inl err, l)" by auto
  show ?thesis
    using assms(1,5) 1 2 by (simp add: fetch_feed_app_def)
qed

lemma item_depre_not_well_formed:
  assumes "\<not> well_formed e"
  shows "item_depre to_list nlp cities url e = (Inl AttributeError, [])"
  using assms by (auto simp: item_depre_def well_formed_def split: option.splits)

lemma item_depre_well_formed:
  assumes "well_formed e"
  shows "\<exists>l. count_list l (WARNING (''Error parsing entry in '' @ url)) = 0
      \<and> (case nlp (combined_text_of e) of
            Inl err \<Rightarrow> item_depre to_list nlp cities url e = (Inl err, l)
          | Inr doc_ents \<Rightarrow>
              (\<exists>r. item_depre to_list nlp cities url e = (Inr r, l)
                 \<and> item_title r = strip (the (find_title e))))"
proof -
  from assms obtain t d l p where f: "find_title e = Some t" "find_description e = Some d"
    "find_link e = Some l" "find_pubDate e = Some p"
    by (auto simp: well_formed_def)
  obtain dt lg where pl: "parse_date_logged p = (dt, lg)" by (cases "parse_date_logged p")
  have "count_list lg (WARNING (''Error parsing entry in '' @ url)) = 0"
    using parse_date_logged_count [of p url] pl by simp
  moreover have "case nlp (combined_text_of e) of
            Inl err \<Rightarrow> item_depre to_list nlp cities url e = (Inl err, lg)
          | Inr doc_ents \<Rightarrow>
              (\<exists>r. item_depre to_list nlp cities url e = (Inr r, lg)
                 \<and> item_title r = strip (the (find_title e)))"
    by (simp add: item_depre_def f pl Let_def with_nlp_def combined_text_of_def text_or_empty_def
        split: sum.splits)
  ultimately show ?thesis by blast
qed

lemma produced_depre_iff:
  "produced_depre to_list nlp cities url e \<noteq> None \<longleftrightarrow> well_formed e \<and> nlp_returns nlp e"
proof (cases "well_formed e")
  case True
  from item_depre_well_formed [OF True, where url = url and nlp = nlp and to_list = to_list and cities = cities] True show ?thesis
    by (auto simp: produced_depre_def nlp_returns_def split: sum.splits)
next
  case False
  from item_depre_not_well_formed [OF False, of to_list nlp cities url] False show ?thesis
    by (simp add: produced_depre_def)
qed

lemma item_depre_caught:
  assumes "well_formed e \<longrightarrow> \<not> nlp_escapes nlp e"
  shows "\<exists>l. count_list l (WARNING (''Error parsing entry in '' @ url)) = 0
      \<and> ((\<exists>r. item_depre to_list nlp cities url e = (Inr r, l)
             \<and> produced_depre to_list nlp cities url e = Some r)
         \<or> item_depre to_list nlp cities url e = (Inl AttributeError, l)
             \<and> produced_depre to_list nlp cities url e = None)"
proof (cases "well_formed e")
  case True
  with assms have n: "\<not> nlp_escapes nlp e" by simp
  from item_depre_well_formed [OF True, where url = url and nlp = nlp and to_list = to_list and cities = cities] n show ?thesis
    by (auto simp: produced_depre_def nlp_escapes_def split: sum.splits)
next
  case False
  from item_depre_not_well_formed [OF False, of to_list nlp cities url] show ?thesis
    by (simp add: produced_depre_def)
qed

lemma loop_depre_append:
  assumes "list_all (\<lambda>e. well_formed e \<longrightarrow> \<not> nlp_escapes nlp e) pre"
  shows "\<exists>log'. loop_depre to_list nlp cities url (items, log) (pre @ rest)
       = loop_depre to_list nlp cities url
           (items @ List.map_filter (produced_depre to_list nlp cities url) pre, log @ log') rest
     \<and> count_list log' (WARNING (''Error parsing entry in '' @ url))
       = length (filter (\<lambda>e. produced_depre to_list nlp cities url e = None) pre)"
  using assms
proof (induction pre arbitrary: items log)
  case Nil
  show ?case by (rule exI [of _ "[]"]) (simp add: List.map_filter_simps)
next
  case (Cons e pre)
  let ?W = "WARNING (''Error parsing entry in '' @ url)"
  let ?P = "produced_depre to_list nlp cities url"
  from Cons.prems have c: "well_formed e \<longrightarrow> \<not> nlp_escapes nlp e"
    and p: "list_all (\<lambda>e. well_formed e \<longrightarrow> \<not> nlp_escapes nlp e) pre" by simp_all
  from item_depre_caught [OF c, where url = url and to_list = to_list and cities = cities] obtain l where l: "count_list l ?W = 0"
    and d: "(\<exists>r. item_depre to_list nlp cities url e = (Inr r, l) \<and> ?P e = Some r)
         \<or> item_depre to_list nlp cities url e = (Inl AttributeError, l) \<and> ?P e = None"
    by blast
  from d show ?case
  proof
    assume "\<exists>r. item_depre to_list nlp cities url e = (Inr r, l) \<and> ?P e = Some r"
    then obtain r where r: "item_depre to_list nlp cities url e = (Inr r, l)"
      and pr: "?P e = Some r" by blast
    from Cons.IH [OF p, of "items @ [r]" "log @ l"]
    obtain log' where
      1: "loop_depre to_list nlp cities url (items @ [r], log @ l) (pre @ rest)
          = loop_depre to_list nlp cities url
              ((items @ [r]) @ List.map_filter ?P pre, (log @ l) @ log') rest"
      and 2: "count_list log' ?W = length (filter (\<lambda>e. ?P e = None) pre)"
      by blast
    have "loop_depre to_list nlp cities url (items, log) ((e # pre) @ rest)
        = loop_depre to_list nlp cities url
            (items @ List.map_filter ?P (e # pre), log @ (l @ log')) rest"
      using r 1 pr by (simp add: List.map_filter_simps)
    moreover have "count_list (l @ log') ?W = length (filter (\<lambda>e. ?P e = None) (e # pre))"
      using l 2 pr by simp
    ultimately show ?thesis by blast
  next
    assume a: "item_depre to_list nlp cities url e = (Inl AttributeError, l) \<and> ?P e = None"
    from Cons.IH [OF p, of items "log @ l @ [?W]"]
    obtain log' where
      1: "loop_depre to_list nlp cities url (items, log @ l @ [?W]) (pre @ rest)
          = loop_depre to_list nlp cities url
              (items @ List.map_filter ?P pre, (log @ l @ [?W]) @ log') rest"
      and 2: "count_list log' ?W = length (filter (\<lambda>e. ?P e = None) pre)"
      by blast
    have "loop_depre to_list nlp cities url (items, log) ((e # pre) @ rest)
        = loop_depre to_list nlp cities url
            (items @ List.map_filter ?P (e # pre), log @ (l @ ?W # log')) rest"
      using a 1 by (simp add: List.map_filter_simps)
    moreover have "count_list (l @ ?W # log') ?W
        = length (filter (\<lambda>e. ?P e = None) (e # pre))"
      using l 2 a by simp
    ultimately show ?thesis by blast
  qed
qed

lemma fetch_feed_depre_returns:
  assumes "http url = Inr entries"
    and "list_all (\<lambda>e. well_formed e \<longrightarrow> \<not> nlp_escapes nlp e) entries"
  shows "\<exists>log. fetch_feed_depre to_list nlp cities http url
       = (Inr (List.map_filter (produced_depre to_list nlp cities url) entries), log)
     \<and> count_list log (WARNING (''Error parsing entry in '' @ url))
       = length (filter (\<lambda>e. produced_depre to_list nlp cities url e = None) entries)"
  using loop_depre_append [OF assms(2), of to_list cities url "[]" "[]" "[]"] assms(1)
  by (auto simp: fetch_feed_depre_def)

lemma fetch_feed_depre_raises:
  assumes "http url = Inr (pre @ x # post)"
    and "list_all (\<lambda>e. well_formed e \<longrightarrow> \<not> nlp_escapes nlp e) pre"
    and "well_formed x" and "nlp (combined_text_of x) = Inl err" and "err \<noteq> AttributeError"
  shows "fst (fetch_feed_depre to_list nlp cities http url)
     = (if err = RequestException
        then Inr (List.map_filter (produced_depre to_list nlp cities url) pre) else Inl err)"
proof -
  from loop_depre_append [OF assms(2), of to_list cities url "[]" "[]" "x # post"]
  obtain log' where 1: "loop_depre to_list nlp cities url ([], []) (pre @ x # post)
       = loop_depre to_list nlp cities url
           (List.map_filter (produced_depre to_list nlp cities url) pre, log') (x # post)"
    by auto
  from item_depre_well_formed [OF assms(3), where url = url and nlp = nlp and to_list = to_list and cities = cities] assms(4)
  obtain l where 2: "item_depre to_list nlp cities url x = (Inl err, l)" by auto
  show ?thesis
    using assms(1,5) 1 2 by (simp add: fetch_feed_depre_def)
qed

lemma length_map_filter:
  "length (List.map_filter f xs) = length (filter (\<lambda>x. f x \<noteq> None) xs)"
  by (induction xs) (auto simp: List.map_filter_simps split: option.splits)
lemma is_disaster_related_sublist:
  "is_disaster_related kws text \<longleftrightarrow> list_ex (\<lambda>k. sublist k (lower text)) kws"
  by (simp add: is_disaster_related_def str_contains_sublist)

lemma fetch_feed_curr_returns:
  assumes "http url = Inr entries"
    and "list_all (\<lambda>e. well_formed e
      \<and> is_disaster_related DISASTER_KEYWORDS_curr (combined_text_of e)
      \<longrightarrow> \<not> nlp_escapes nlp e) entries"
  shows "fetch_feed_curr to_list nlp cities http url
     = Inr (List.map_filter (produced_curr to_list nlp cities url) entries)"
  using assms(1) loop_curr_returns [OF assms(2), of to_list cities url]
  by (simp add: fetch_feed_curr_def)

lemma fetch_feed_curr_raises:
  assumes "http url = Inr (pre @ x # post)"
    and "list_all (\<lambda>e. well_formed e
      \<and> is_disaster_related DISASTER_KEYWORDS_curr (combined_text_of e)
      \<longrightarrow> \<not> nlp_escapes nlp e) pre"
    and "well_formed x" and "is_disaster_related DISASTER_KEYWORDS_curr (combined_text_of x)"
    and "nlp (combined_text_of x) = Inl err" and "err \<noteq> AttributeError"
  shows "fetch_feed_curr to_list nlp cities http url
     = (if err = RequestException
        then Inr (List.map_filter (produced_curr to_list nlp cities url) pre) else Inl err)"
  using assms(1)
    loop_curr_raises [where nlp = nlp and x = x, OF assms(2,3,4,5,6), of to_list cities url post]
  by (simp add: fetch_feed_curr_def)

text \<open>
  Claim C8, as amended. Let the feed be fetched and parsed.

  In \<open>app.py\<close> and \<open>jsonDEPRE.py\<close> the entries are processed in the order of the feed. An
  entry with an absent child (title, description, link or publication date) contributes no
  record, and neither does a well-formed entry on which the recogniser raises
  \<open>AttributeError\<close>: the handler inside the loop logs the warning
  \<open>Error parsing entry in <url>\<close> once for each such entry, and the loop continues. An entry
  contributes a record exactly when it is well formed and the recogniser returns on it. So
  long as the recogniser raises nothing else, the driver returns, without raising, the
  records of the feed in order. Any other exception of the recogniser is caught by no handler
  inside the loop: it ends the loop at the first entry where it is raised; it leaves
  \<open>_fetch_feed\<close>, which then returns no record at all, unless it is a \<open>RequestException\<close>,
  which the outer handler logs before the records appended so far are returned.

  In \<open>check.py\<close> an absent child is read as the empty string and the entry is not skipped.
  The driver never raises: it returns the records of the disaster-related entries, in the
  order of the feed, up to the first such entry on which the recogniser raises; that entry
  and all the entries after it are dropped.
\<close>

theorem fetch_feed_skips_malformed:
  assumes "http url = Inr entries"
  shows "(list_all (\<lambda>e. well_formed e \<longrightarrow> \<not> nlp_escapes nlp e) entries \<longrightarrow>
            (\<exists>log. fetch_feed_app to_list nlp cities http url
                 = (Inr (List.map_filter (produced_app to_list nlp cities url) entries), log)
               \<and> count_list log (WARNING (''Error parsing entry in '' @ url))
                 = length (filter (\<lambda>e. produced_app to_list nlp cities url e = None) entries))
          \<and> (\<exists>log. fetch_feed_depre to_list nlp cities http url
                 = (Inr (List.map_filter (produced_depre to_list nlp cities url) entries), log)
               \<and> count_list log (WARNING (''Error parsing entry in '' @ url))
                 = length (filter (\<lambda>e. produced_depre to_list nlp cities url e = None) entries)))
       \<and> (produced_app to_list nlp cities url e \<noteq> None \<longleftrightarrow> well_formed e \<and> nlp_returns nlp e)
       \<and> (produced_depre to_list nlp cities url e \<noteq> None
            \<longleftrightarrow> well_formed e \<and> nlp_returns nlp e)
       \<and> (\<forall>pre x post err.
            entries = pre @ x # post
            \<and> list_all (\<lambda>e. well_formed e \<longrightarrow> \<not> nlp_escapes nlp e) pre
            \<and> well_formed x \<and> nlp (combined_text_of x) = Inl err \<and> err \<noteq> AttributeError
            \<longrightarrow> fst (fetch_feed_app to_list nlp cities http url)
                  = (if err = RequestException
                     then Inr (List.map_filter (produced_app to_list nlp cities url) pre)
                     else Inl err)
              \<and> fst (fetch_feed_depre to_list nlp cities http url)
                  = (if err = RequestException
                     then Inr (List.map_filter (produced_depre to_list nlp cities url) pre)
                     else Inl err))
       \<and> fetch_feed_check to_list nlp cities http url
           = List.map_filter (produced_check to_list nlp cities url)
               (takeWhile
                  (\<lambda>e. is_disaster_related DISASTER_KEYWORDS_check (combined_text_of e)
                        \<longrightarrow> nlp_returns nlp e) entries)
       \<and> (produced_check to_list nlp cities url e \<noteq> None
            \<longleftrightarrow> is_disaster_related DISASTER_KEYWORDS_check (combined_text_of e)
                \<and> nlp_returns nlp e)"
proof -
  let ?ok = "\<lambda>e. well_formed e \<longrightarrow> \<not> nlp_escapes nlp e"
  have a: "list_all ?ok entries \<longrightarrow>
            (\<exists>log. fetch_feed_app to_list nlp cities http url
                 = (Inr (List.map_filter (produced_app to_list nlp cities url) entries), log)
               \<and> count_list log (WARNING (''Error parsing entry in '' @ url))
                 = length (filter (\<lambda>e. produced_app to_list nlp cities url e = None) entries))
          \<and> (\<exists>log. fetch_feed_depre to_list nlp cities http url
                 = (Inr (List.map_filter (produced_depre to_list nlp cities url) entries), log)
               \<and> count_list log (WARNING (''Error parsing entry in '' @ url))
                 = length (filter (\<lambda>e. produced_depre to_list nlp cities url e = None) entries))"
    using fetch_feed_app_returns [where http = http and url = url and entries = entries
        and nlp = nlp and to_list = to_list and cities = cities, OF assms]
      fetch_feed_depre_returns [where http = http and url = url and entries = entries
        and nlp = nlp and to_list = to_list and cities = cities, OF assms]
    by blast
  have b: "\<forall>pre x post err.
            entries = pre @ x # post \<and> list_all ?ok pre
            \<and> well_formed x \<and> nlp (combined_text_of x) = Inl err \<and> err \<noteq> AttributeError
            \<longrightarrow> fst (fetch_feed_app to_list nlp cities http url)
                  = (if err = RequestException
                     then Inr (List.map_filter (produced_app to_list nlp cities url) pre)
                     else Inl err)
              \<and> fst (fetch_feed_depre to_list nlp cities http url)
                  = (if err = RequestException
                     then Inr (List.map_filter (produced_depre to_list nlp cities url) pre)
                     else Inl err)"
  proof (intro allI impI, elim conjE)
    fix pre x post err
    assume e: "entries = pre @ x # post" and p: "list_all ?ok pre" and w: "well_formed x"
      and n: "nlp (combined_text_of x) = Inl err" and ne: "err \<noteq> AttributeError"
    have h: "http url = Inr (pre @ x # post)" using assms e by simp
    from fetch_feed_app_raises [where http = http and url = url and nlp = nlp and x = x
        and to_list = to_list and cities = cities, OF h p w n ne]
      fetch_feed_depre_raises [where http = http and url = url and nlp = nlp and x = x
        and to_list = to_list and cities = cities, OF h p w n ne]
    show "fst (fetch_feed_app to_list nlp cities http url)
                  = (if err = RequestException
                     then Inr (List.map_filter (produced_app to_list nlp cities url) pre)
                     else Inl err)
              \<and> fst (fetch_feed_depre to_list nlp cities http url)
                  = (if err = RequestException
                     then Inr (List.map_filter (produced_depre to_list nlp cities url) pre)
                     else Inl err)"
      by (rule conjI)
  qed
  note c = fetch_feed_check_eq [where http = http and url = url and entries = entries
      and nlp = nlp and to_list = to_list and cities = cities, OF assms]
  note d = produced_app_iff [of to_list nlp cities url e]
    produced_depre_iff [of to_list nlp cities url e]
    produced_check_iff [of to_list nlp cities url e]
  from a b c d show ?thesis by (intro conjI)
qed

theorem fetch_feed_skips_malformed_witness:
  "(\<exists>r log. fetch_feed_app sorted_list_of_set (\<lambda>t. Inr []) {}
       (\<lambda>u. Inr [\<lparr>find_title = Some ''Flood in Assam'',
                   find_description = Some ''Rivers overflow'',
                   find_link = Some ''http://example.org/1'',
                   find_pubDate = Some ''Mon, 02 Jan 2023 15:04:05 +0000''\<rparr>,
                  \<lparr>find_title = None,
                   find_description = Some ''Earthquake hits city'',
                   find_link = Some ''http://example.org/2'',
                   find_pubDate = Some ''Mon, 02 Jan 2023 16:00:00 +0000''\<rparr>]) ''feed''
     = (Inr [r], log)
     \<and> produced_app sorted_list_of_set (\<lambda>t. Inr []) {} ''feed''
         \<lparr>find_title = Some ''Flood in Assam'',
          find_description = Some ''Rivers overflow'',
          find_link = Some ''http://example.org/1'',
          find_pubDate = Some ''Mon, 02 Jan 2023 15:04:05 +0000''\<rparr> = Some r
     \<and> count_list log (WARNING ''Error parsing entry in feed'') = 1)
   \<and> fst (fetch_feed_app sorted_list_of_set (\<lambda>t. Inl ValueError) {}
       (\<lambda>u. Inr [\<lparr>find_title = None,
                   find_description = Some ''Earthquake hits city'',
                   find_link = Some ''http://example.org/2'',
                   find_pubDate = Some ''Mon, 02 Jan 2023 16:00:00 +0000''\<rparr>,
                  \<lparr>find_title = Some ''Flood in Assam'',
                   find_description = Some ''Rivers overflow'',
                   find_link = Some ''http://example.org/1'',
                   find_pubDate = Some ''Mon, 02 Jan 2023 15:04:05 +0000''\<rparr>]) ''feed'')
     = Inl ValueError"
proof -
  let ?good = "\<lparr>find_title = Some ''Flood in Assam'',
                find_description = Some ''Rivers overflow'',
                find_link = Some ''http://example.org/1'',
                find_pubDate = Some ''Mon, 02 Jan 2023 15:04:05 +0000''\<rparr>"
  let ?bad = "\<lparr>find_title = None,
               find_description = Some ''Earthquake hits city'',
               find_link = Some ''http://example.org/2'',
               find_pubDate = Some ''Mon, 02 Jan 2023 16:00:00 +0000''\<rparr>"
  let ?http = "\<lambda>u :: string. Inr [?good, ?bad] :: py_error + entry list"
  let ?http' = "\<lambda>u :: string. Inr [?bad, ?good] :: py_error + entry list"
  let ?nlp = "\<lambda>t :: string. Inr [] :: py_error + ent list"
  let ?nlp' = "\<lambda>t :: string. Inl ValueError :: py_error + ent list"
  let ?P = "produced_app sorted_list_of_set ?nlp {} ''feed''"
  have h: "?http ''feed'' = Inr [?good, ?bad]" by simp
  have h': "?http' ''feed'' = Inr [?bad, ?good]" by simp
  have wg: "well_formed ?good" by (simp add: well_formed_def)
  have wb: "\<not> well_formed ?bad" by (simp add: well_formed_def)
  have ng: "nlp_returns ?nlp ?good" by (simp add: nlp_returns_def)
  have ok: "list_all (\<lambda>e. well_formed e \<longrightarrow> \<not> nlp_escapes ?nlp e) [?good, ?bad]"
    by (simp add: nlp_escapes_def)
  note tg = fetch_feed_skips_malformed [where http = ?http and url = "''feed''"
      and entries = "[?good, ?bad]" and to_list = sorted_list_of_set and nlp = ?nlp
      and cities = "{}" and e = ?good, OF h]
  note tb = fetch_feed_skips_malformed [where http = ?http and url = "''feed''"
      and entries = "[?good, ?bad]" and to_list = sorted_list_of_set and nlp = ?nlp
      and cities = "{}" and e = ?bad, OF h]
  note tr = fetch_feed_skips_malformed [where http = ?http' and url = "''feed''"
      and entries = "[?bad, ?good]" and to_list = sorted_list_of_set and nlp = ?nlp'
      and cities = "{}" and e = ?good, OF h']
  from tg wg ng obtain r where r: "?P ?good = Some r" by blast
  from tb wb have n: "?P ?bad = None" by blast
  from tg ok obtain log where
    1: "fetch_feed_app sorted_list_of_set ?nlp {} ?http ''feed''
        = (Inr (List.map_filter ?P [?good, ?bad]), log)"
    and 2: "count_list log (WARNING (''Error parsing entry in '' @ ''feed''))
        = length (filter (\<lambda>e. ?P e = None) [?good, ?bad])"
    by blast
  have 3: "List.map_filter ?P [?good, ?bad] = [r]"
    using r n by (simp add: List.map_filter_simps)
  have 4: "count_list log (WARNING ''Error parsing entry in feed'') = 1"
    using 2 r n by simp
  have first: "\<exists>r log. fetch_feed_app sorted_list_of_set ?nlp {} ?http ''feed'' = (Inr [r], log)
     \<and> ?P ?good = Some r
     \<and> count_list log (WARNING ''Error parsing entry in feed'') = 1"
    using 1 3 r 4 by auto
  have pre: "[?bad, ?good] = [?bad] @ ?good # []
      \<and> list_all (\<lambda>e. well_formed e \<longrightarrow> \<not> nlp_escapes ?nlp' e) [?bad]
      \<and> well_formed ?good \<and> ?nlp' (combined_text_of ?good) = Inl ValueError
      \<and> ValueError \<noteq> AttributeError"
    using wg wb by simp
  from tr have "\<forall>pre x post err.
            [?bad, ?good] = pre @ x # post
            \<and> list_all (\<lambda>e. well_formed e \<longrightarrow> \<not> nlp_escapes ?nlp' e) pre
            \<and> well_formed x \<and> ?nlp' (combined_text_of x) = Inl err \<and> err \<noteq> AttributeError
            \<longrightarrow> fst (fetch_feed_app sorted_list_of_set ?nlp' {} ?http' ''feed'')
                  = (if err = RequestException
                     then Inr (List.map_filter
                            (produced_app sorted_list_of_set ?nlp' {} ''feed'') pre)
                     else Inl err)
              \<and> fst (fetch_feed_depre sorted_list_of_set ?nlp' {} ?http' ''feed'')
                  = (if err = RequestException
                     then Inr (List.map_filter
                            (produced_depre sorted_list_of_set ?nlp' {} ''feed'') pre)
                     else Inl err)"
    by blast
  from this [rule_format, of "[?bad]" ?good "[]" ValueError, OF pre]
  have second: "fst (fetch_feed_app sorted_list_of_set ?nlp' {} ?http' ''feed'') = Inl ValueError"
    by simp
  from first second show ?thesis by (rule conjI)
qed

text \<open>
  Claim C8 as stated fails on \<open>check.py\<close>: for a batch of one well-formed entry and one
  entry with no title, both disaster related, the driver returns two records.
\<close>

theorem fetch_feed_check_keeps_untitled:
  "length (fetch_feed_check sorted_list_of_set (\<lambda>t. Inr []) {}
       (\<lambda>u. Inr [\<lparr>find_title = Some ''Flood in Assam'',
                   find_description = Some ''Rivers overflow'',
                   find_link = Some ''http://example.org/1'',
                   find_pubDate = Some ''Mon, 02 Jan 2023 15:04:05 +0000''\<rparr>,
                  \<lparr>find_title = None,
                   find_description = Some ''Earthquake hits city'',
                   find_link = Some ''http://example.org/2'',
                   find_pubDate = Some ''Mon, 02 Jan 2023 16:00:00 +0000''\<rparr>]) ''feed'') = 2"
proof -
  let ?good = "\<lparr>find_title = Some ''Flood in Assam'',
                find_description = Some ''Rivers overflow'',
                find_link = Some ''http://example.org/1'',
                find_pubDate = Some ''Mon, 02 Jan 2023 15:04:05 +0000''\<rparr>"
  let ?bad = "\<lparr>find_title = None,
               find_description = Some ''Earthquake hits city'',
               find_link = Some ''http://example.org/2'',
               find_pubDate = Some ''Mon, 02 Jan 2023 16:00:00 +0000''\<rparr>"
  let ?http = "\<lambda>u :: string. Inr [?good, ?bad] :: py_error + entry list"
  let ?nlp = "\<lambda>t :: string. Inr [] :: py_error + ent list"
  let ?ok = "\<lambda>e. is_disaster_related DISASTER_KEYWORDS_check (combined_text_of e)
      \<longrightarrow> nlp_returns ?nlp e"
  have tg: "combined_text_of ?good = ''Flood in Assam Rivers overflow''"
    by (simp add: combined_text_of_def text_or_empty_def strip_eval)
  have tb: "combined_text_of ?bad = '' Earthquake hits city''"
    by (simp add: combined_text_of_def text_or_empty_def strip_eval)
  have g: "is_disaster_related DISASTER_KEYWORDS_check (combined_text_of ?good)"
    unfolding tg by (simp add: is_disaster_related_def DISASTER_KEYWORDS_check_def lower_eval)
  have b: "is_disaster_related DISASTER_KEYWORDS_check (combined_text_of ?bad)"
    unfolding tb by (simp add: is_disaster_related_def DISASTER_KEYWORDS_check_def lower_eval)
  have n: "nlp_returns ?nlp ?good" "nlp_returns ?nlp ?bad" by (simp_all add: nlp_returns_def)
  have t: "takeWhile ?ok [?good, ?bad] = [?good, ?bad]"
    using n by simp
  have "fetch_feed_check sorted_list_of_set ?nlp {} ?http ''feed''
      = List.map_filter (produced_check sorted_list_of_set ?nlp {} ''feed'')
          (takeWhile ?ok [?good, ?bad])"
    using fetch_feed_check_eq [where http = ?http and url = "''feed''"
        and entries = "[?good, ?bad]" and to_list = sorted_list_of_set and nlp = ?nlp
        and cities = "{}"]
    by simp
  then have "length (fetch_feed_check sorted_list_of_set ?nlp {} ?http ''feed'')
      = length (filter (\<lambda>e. produced_check sorted_list_of_set ?nlp {} ''feed'' e \<noteq> None)
          [?good, ?bad])"
    unfolding t by (simp only: length_map_filter)
  also have "\<dots> = 2"
    using g b n by (simp add: produced_check_iff del: not_None_eq)
  finally show ?thesis .
qed

text \<open>
  Claim C9 as stated fails when the entity recogniser raises: here all four children of the
  entry are present and the keyword \<open>cyclone\<close> occurs in its combined text, and yet no record
  is produced for it. In \<open>jsonCURR.py\<close> the exception leaves \<open>_fetch_feed\<close>; in \<open>check.py\<close> it
  ends the loop.
\<close>

theorem disaster_filter_recogniser_raises:
  "well_formed
     \<lparr>find_title = Some ''Cyclone hits Odisha'',
      find_description = Some ''Officials began evacuation in Odisha state'',
      find_link = Some ''http://example.org/4'',
      find_pubDate = Some ''Tue, 10 Oct 2023 08:00:00 +0000''\<rparr>
   \<and> is_disaster_related DISASTER_KEYWORDS_curr
       ''Cyclone hits Odisha Officials began evacuation in Odisha state''
   \<and> is_disaster_related DISASTER_KEYWORDS_check
       ''Cyclone hits Odisha Officials began evacuation in Odisha state''
   \<and> fetch_feed_curr sorted_list_of_set (\<lambda>t. Inl ValueError) {}
       (\<lambda>u. Inr [\<lparr>find_title = Some ''Cyclone hits Odisha'',
                   find_description = Some ''Officials began evacuation in Odisha state'',
                   find_link = Some ''http://example.org/4'',
                   find_pubDate = Some ''Tue, 10 Oct 2023 08:00:00 +0000''\<rparr>]) ''feed''
     = Inl ValueError
   \<and> fetch_feed_check sorted_list_of_set (\<lambda>t. Inl ValueError) {}
       (\<lambda>u. Inr [\<lparr>find_title = Some ''Cyclone hits Odisha'',
                   find_description = Some ''Officials began evacuation in Odisha state'',
                   find_link = Some ''http://example.org/4'',
                   find_pubDate = Some ''Tue, 10 Oct 2023 08:00:00 +0000''\<rparr>]) ''feed''
     = []"
proof -
  let ?storm = "\<lparr>find_title = Some ''Cyclone hits Odisha'',
      find_description = Some ''Officials began evacuation in Odisha state'',
      find_link = Some ''http://example.org/4'',
      find_pubDate = Some ''Tue, 10 Oct 2023 08:00:00 +0000''\<rparr>"
  let ?t = "''Cyclone hits Odisha Officials began evacuation in Odisha state''"
  let ?nlp = "\<lambda>t :: string. Inl ValueError :: py_error + ent list"
  have w: "well_formed ?storm" by (simp add: well_formed_def)
  have s: "strip ''Cyclone hits Odisha'' = ''Cyclone hits Odisha''"
    "strip ''Officials began evacuation in Odisha state''
      = ''Officials began evacuation in Odisha state''"
    by (simp_all add: strip_eval)
  have c: "is_disaster_related DISASTER_KEYWORDS_curr ?t"
    by (simp add: is_disaster_related_def DISASTER_KEYWORDS_curr_def lower_eval)
  have k: "is_disaster_related DISASTER_KEYWORDS_check ?t"
    by (simp add: is_disaster_related_def DISASTER_KEYWORDS_check_def lower_eval)
  have ic: "item_curr sorted_list_of_set ?nlp {} ''feed'' ?storm = Inl ValueError"
    by (simp add: item_curr_def s c with_nlp_def)
  have ik: "item_check sorted_list_of_set ?nlp {} ''feed'' ?storm = Inl ValueError"
    by (simp add: item_check_def text_or_empty_def s k with_nlp_def)
  have 1: "fetch_feed_curr sorted_list_of_set ?nlp {} (\<lambda>u. Inr [?storm]) ''feed''
      = Inl ValueError"
    by (simp add: fetch_feed_curr_def ic)
  have 2: "fetch_feed_check sorted_list_of_set ?nlp {} (\<lambda>u. Inr [?storm]) ''feed'' = []"
    by (simp add: fetch_feed_check_def ik)
  from w c k 1 2 show ?thesis by (intro conjI)
qed

text \<open>
  Claim C9, as amended. In the two scrapers that filter (\<open>jsonCURR.py\<close> and \<open>check.py\<close>):
  an entry whose combined text is not disaster related contributes no record. An entry
  contributes a record exactly when some keyword of the vocabulary occurs in its lower-cased
  combined text, the entity recogniser returns on that text, and, in \<open>jsonCURR.py\<close>, the
  entry is well formed. If the recogniser raises on no entry for which it is called (in
  \<open>jsonCURR.py\<close>: raises nothing but \<open>AttributeError\<close>), the loop returns exactly the
  contributed records, in the order of the feed. Otherwise the loop ends at the first entry
  on which the recogniser raises, with the records contributed before it: that entry and the
  later ones, keyword or not, yield no record.
\<close>

theorem disaster_filter_exact:
  "(\<not> is_disaster_related DISASTER_KEYWORDS_curr (combined_text_of e)
      \<longrightarrow> produced_curr to_list nlp cities url e = None)
   \<and> (produced_curr to_list nlp cities url e \<noteq> None
        \<longleftrightarrow> well_formed e \<and> nlp_returns nlp e
            \<and> list_ex (\<lambda>k. sublist k (lower (combined_text_of e))) DISASTER_KEYWORDS_curr)
   \<and> (list_all (\<lambda>e. well_formed e
                     \<and> is_disaster_related DISASTER_KEYWORDS_curr (combined_text_of e)
                     \<longrightarrow> \<not> nlp_escapes nlp e) entries
        \<longrightarrow> loop_curr to_list nlp cities url [] entries
              = (List.map_filter (produced_curr to_list nlp cities url) entries, None))
   \<and> (list_all (\<lambda>e. well_formed e
                     \<and> is_disaster_related DISASTER_KEYWORDS_curr (combined_text_of e)
                     \<longrightarrow> \<not> nlp_escapes nlp e) entries
        \<and> well_formed x \<and> is_disaster_related DISASTER_KEYWORDS_curr (combined_text_of x)
        \<and> nlp (combined_text_of x) = Inl err \<and> err \<noteq> AttributeError
        \<longrightarrow> loop_curr to_list nlp cities url [] (entries @ x # post)
              = (List.map_filter (produced_curr to_list nlp cities url) entries, Some err))
   \<and> (\<not> is_disaster_related DISASTER_KEYWORDS_check (combined_text_of e)
        \<longrightarrow> produced_check to_list nlp cities url e = None)
   \<and> (produced_check to_list nlp cities url e \<noteq> None
        \<longleftrightarrow> nlp_returns nlp e
            \<and> list_ex (\<lambda>k. sublist k (lower (combined_text_of e))) DISASTER_KEYWORDS_check)
   \<and> fst (loop_check to_list nlp cities url [] entries)
       = List.map_filter (produced_check to_list nlp cities url)
           (takeWhile
              (\<lambda>e. is_disaster_related DISASTER_KEYWORDS_check (combined_text_of e)
                    \<longrightarrow> nlp_returns nlp e) entries)
   \<and> (list_all (\<lambda>e. is_disaster_related DISASTER_KEYWORDS_check (combined_text_of e)
                     \<longrightarrow> nlp_returns nlp e) entries
        \<longrightarrow> fst (loop_check to_list nlp cities url [] entries)
              = List.map_filter (produced_check to_list nlp cities url) entries)"
proof -
  let ?okc = "\<lambda>e. well_formed e
      \<and> is_disaster_related DISASTER_KEYWORDS_curr (combined_text_of e)
      \<longrightarrow> \<not> nlp_escapes nlp e"
  let ?okk = "\<lambda>e. is_disaster_related DISASTER_KEYWORDS_check (combined_text_of e)
      \<longrightarrow> nlp_returns nlp e"
  have 1: "\<not> is_disaster_related DISASTER_KEYWORDS_curr (combined_text_of e)
      \<longrightarrow> produced_curr to_list nlp cities url e = None"
    using produced_curr_iff [of to_list nlp cities url e] by blast
  have 2: "produced_curr to_list nlp cities url e \<noteq> None
        \<longleftrightarrow> well_formed e \<and> nlp_returns nlp e
            \<and> list_ex (\<lambda>k. sublist k (lower (combined_text_of e))) DISASTER_KEYWORDS_curr"
    using produced_curr_iff [of to_list nlp cities url e]
      is_disaster_related_sublist [of DISASTER_KEYWORDS_curr "combined_text_of e"]
    by blast
  have 3: "list_all ?okc entries
        \<longrightarrow> loop_curr to_list nlp cities url [] entries
              = (List.map_filter (produced_curr to_list nlp cities url) entries, None)"
    using loop_curr_returns [where nlp = nlp and entries = entries, of to_list cities url]
    by blast
  have 4: "list_all ?okc entries
        \<and> well_formed x \<and> is_disaster_related DISASTER_KEYWORDS_curr (combined_text_of x)
        \<and> nlp (combined_text_of x) = Inl err \<and> err \<noteq> AttributeError
        \<longrightarrow> loop_curr to_list nlp cities url [] (entries @ x # post)
              = (List.map_filter (produced_curr to_list nlp cities url) entries, Some err)"
    using loop_curr_raises [where nlp = nlp and pre = entries and x = x and err = err,
        of to_list cities url post]
    by blast
  have 5: "\<not> is_disaster_related DISASTER_KEYWORDS_check (combined_text_of e)
        \<longrightarrow> produced_check to_list nlp cities url e = None"
    using produced_check_iff [of to_list nlp cities url e] by blast
  have 6: "produced_check to_list nlp cities url e \<noteq> None
        \<longleftrightarrow> nlp_returns nlp e
            \<and> list_ex (\<lambda>k. sublist k (lower (combined_text_of e))) DISASTER_KEYWORDS_check"
    using produced_check_iff [of to_list nlp cities url e]
      is_disaster_related_sublist [of DISASTER_KEYWORDS_check "combined_text_of e"]
    by blast
  note 7 = loop_check_acc [of to_list nlp cities url "[]" entries, simplified]
  have 8: "list_all ?okk entries
        \<longrightarrow> fst (loop_check to_list nlp cities url [] entries)
              = List.map_filter (produced_check to_list nlp cities url) entries"
  proof
    assume "list_all ?okk entries"
    then have "takeWhile ?okk entries = entries" by (simp add: list_all_iff)
    with 7 show "fst (loop_check to_list nlp cities url [] entries)
              = List.map_filter (produced_check to_list nlp cities url) entries"
      by simp
  qed
  from 1 2 3 4 5 6 7 8 show ?thesis by (intro conjI)
qed

theorem disaster_filter_exact_witness:
  "produced_curr sorted_list_of_set (\<lambda>t. Inr []) {} ''feed''
     \<lparr>find_title = Some ''Local bakery wins award'',
      find_description = Some ''A prize for bread'',
      find_link = Some ''http://example.org/3'',
      find_pubDate = Some ''Mon, 02 Jan 2023 15:04:05 +0000''\<rparr> = None
   \<and> produced_curr sorted_list_of_set (\<lambda>t. Inr []) {} ''feed''
     \<lparr>find_title = Some ''Cyclone hits Odisha'',
      find_description = Some ''Officials began evacuation in Odisha state'',
      find_link = Some ''http://example.org/4'',
      find_pubDate = Some ''Tue, 10 Oct 2023 08:00:00 +0000''\<rparr> \<noteq> None
   \<and> well_formed
     \<lparr>find_title = Some ''Cyclone hits Odisha'',
      find_description = Some ''Officials began evacuation in Odisha state'',
      find_link = Some ''http://example.org/4'',
      find_pubDate = Some ''Tue, 10 Oct 2023 08:00:00 +0000''\<rparr>
   \<and> (\<exists>r. loop_curr sorted_list_of_set (\<lambda>t. Inr []) {} ''feed'' []
       [\<lparr>find_title = Some ''Local bakery wins award'',
         find_description = Some ''A prize for bread'',
         find_link = Some ''http://example.org/3'',
         find_pubDate = Some ''Mon, 02 Jan 2023 15:04:05 +0000''\<rparr>,
        \<lparr>find_title = Some ''Cyclone hits Odisha'',
         find_description = Some ''Officials began evacuation in Odisha state'',
         find_link = Some ''http://example.org/4'',
         find_pubDate = Some ''Tue, 10 Oct 2023 08:00:00 +0000''\<rparr>] = ([r], None))"
proof -
  let ?dull = "\<lparr>find_title = Some ''Local bakery wins award'',
      find_description = Some ''A prize for bread'',
      find_link = Some ''http://example.org/3'',
      find_pubDate = Some ''Mon, 02 Jan 2023 15:04:05 +0000''\<rparr>"
  let ?storm = "\<lparr>find_title = Some ''Cyclone hits Odisha'',
      find_description = Some ''Officials began evacuation in Odisha state'',
      find_link = Some ''http://example.org/4'',
      find_pubDate = Some ''Tue, 10 Oct 2023 08:00:00 +0000''\<rparr>"
  let ?nlp = "\<lambda>t :: string. Inr [] :: py_error + ent list"
  let ?P = "produced_curr sorted_list_of_set ?nlp {} ''feed''"
  have td: "combined_text_of ?dull = ''Local bakery wins award A prize for bread''"
    by (simp add: combined_text_of_def text_or_empty_def strip_eval)
  have ts: "combined_text_of ?storm
      = ''Cyclone hits Odisha Officials began evacuation in Odisha state''"
    by (simp add: combined_text_of_def text_or_empty_def strip_eval)
  have d: "\<not> is_disaster_related DISASTER_KEYWORDS_curr (combined_text_of ?dull)"
    unfolding td by (simp add: is_disaster_related_def DISASTER_KEYWORDS_curr_def lower_eval)
  have s: "is_disaster_related DISASTER_KEYWORDS_curr (combined_text_of ?storm)"
    unfolding ts by (simp add: is_disaster_related_def DISASTER_KEYWORDS_curr_def lower_eval)
  have w: "well_formed ?storm" by (simp add: well_formed_def)
  have n: "nlp_returns ?nlp ?storm" by (simp add: nlp_returns_def)
  have ok: "list_all (\<lambda>e. well_formed e
      \<and> is_disaster_related DISASTER_KEYWORDS_curr (combined_text_of e)
      \<longrightarrow> \<not> nlp_escapes ?nlp e) [?dull, ?storm]"
    by (simp add: nlp_escapes_def)
  note t1 = disaster_filter_exact [where e = ?dull and to_list = sorted_list_of_set
      and nlp = ?nlp and cities = "{}" and url = "''feed''" and entries = "[?dull, ?storm]"]
  note t2 = disaster_filter_exact [where e = ?storm and to_list = sorted_list_of_set
      and nlp = ?nlp and cities = "{}" and url = "''feed''" and entries = "[?dull, ?storm]"]
  have 1: "?P ?dull = None"
    using t1 d by blast
  have 2: "?P ?storm \<noteq> None"
    using t2 w n s is_disaster_related_sublist [of DISASTER_KEYWORDS_curr "combined_text_of ?storm"]
    by blast
  then obtain r where r: "?P ?storm = Some r" by blast
  from t1 ok have "loop_curr sorted_list_of_set ?nlp {} ''feed'' [] [?dull, ?storm]
      = (List.map_filter ?P [?dull, ?storm], None)"
    by blast
  then have 3: "loop_curr sorted_list_of_set ?nlp {} ''feed'' [] [?dull, ?storm] = ([r], None)"
    using 1 r by (simp add: List.map_filter_simps)
  from 1 2 w 3 show ?thesis by blast
qed
section \<open>Properties of the date normalizer\<close>







lemma re_digit_not_digit:
  assumes "\<not> is_digit c"
  shows "re_digit P (c # r) = None"
  using assms by (simp add: re_digit_def)












































lemmas date_eval = parse_date_def strptime_def format_regex_match_def
  re_names.simps re_char_def re_spaces_def re_d_def re_Y_def re_H_def re_M_def re_S_def re_z_def
  re_digit_def re_digits2_def re_colon_opt_def re_seconds_group_def re_frac_def
  is_digit_def digit_val_def any_digit_def a_weekday_def a_month_def
  gmtoff_of_def timezone_def datetime_new_def days_in_month_def is_leap_def
  strftime_def format_Y_def pad2_def pad4_def digit_char_def int_of_digits_def
  lower_def lower_char_def ascii_uppercase_def ascii_lowercase_def
  latin1_uppercase_def latin1_lowercase_def
  strip_def lstrip_def rstrip_def isspace_def




text \<open>
  Claim C5. Whenever parsing fails, that is whenever \<open>strptime\<close> raises on the stripped
  input, \<open>_parse_date\<close> returns its argument unchanged, blanks included (and the variant
  of \<open>app.py\<close> and \<open>jsonDEPRE.py\<close> logs one warning). The function is total: it raises
  nothing on any string.
\<close>

theorem parse_date_fallback:
  assumes "strptime (strip date_str) = Inl e"
  shows "parse_date date_str = date_str
       \<and> parse_date_logged date_str
           = (date_str, [WARNING (''Error parsing date '' @ date_str)])"
  using assms by (simp add: parse_date_def parse_date_logged_def)

theorem parse_date_fallback_witness:
  "strptime (strip ''  not-a-date \<newline>'') = Inl ValueError
   \<and> parse_date ''  not-a-date \<newline>'' = ''  not-a-date \<newline>''
   \<and> parse_date ''not-a-date'' = ''not-a-date''
   \<and> parse_date '''' = ''''
   \<and> parse_date ''2023-01-02 15:04:05'' = ''2023-01-02 15:04:05''
   \<and> parse_date ''Mon, 02 Jan 2023 15:04:05 GMT'' = ''Mon, 02 Jan 2023 15:04:05 GMT''
   \<and> parse_date ''Mon, 31 Feb 2023 15:04:05 +0000'' = ''Mon, 31 Feb 2023 15:04:05 +0000''"
proof -
  have 1: "strptime (strip ''  not-a-date \<newline>'') = Inl ValueError"
    by (simp add: date_eval)
  have 2: "strptime (strip ''not-a-date'') = Inl ValueError"
    by (simp add: date_eval)
  have 3: "strptime (strip '''') = Inl ValueError"
    by (simp add: date_eval)
  have 4: "strptime (strip ''2023-01-02 15:04:05'') = Inl ValueError"
    by (simp add: date_eval)
  have 5: "strptime (strip ''Mon, 02 Jan 2023 15:04:05 GMT'') = Inl ValueError"
    by (simp add: date_eval)
  have 6: "strptime (strip ''Mon, 31 Feb 2023 15:04:05 +0000'') = Inl ValueError"
    by (simp add: date_eval)
  from 1 parse_date_fallback [OF 1] parse_date_fallback [OF 2] parse_date_fallback [OF 3]
    parse_date_fallback [OF 4] parse_date_fallback [OF 5] parse_date_fallback [OF 6]
  show ?thesis by blast
qed

section \<open>An example, end to end\<close>

lemma list_of_set_singleton:
  assumes "list_of_set to_list"
  shows "to_list {x} = [x]"
proof -
  have s: "set (to_list {x}) = {x}" using assms by (simp add: list_of_set_def)
  have d: "distinct (to_list {x})" using assms by (simp add: list_of_set_def)
  show ?thesis
  proof (cases "to_list {x}")
    case Nil
    with s show ?thesis by simp
  next
    case (Cons a as)
    with s have a: "a = x" by auto
    have "as = []"
    proof (cases as)
      case Nil then show ?thesis .
    next
      case (Cons b bs)
      with s \<open>to_list {x} = a # as\<close> have "b = x" by auto
      with a Cons d \<open>to_list {x} = a # as\<close> show ?thesis by simp
    qed
    with a Cons show ?thesis by simp
  qed
qed

text \<open>
  The record that \<open>jsonCURR.py\<close> builds for an entry titled "Cyclone hits Odisha", when
  the recogniser tags "Odisha" as a place and the gazetteer holds "odisha".
\<close>

lemma end_to_end:
  assumes "list_of_set to_list"
  shows "item_curr to_list
     (\<lambda>t. Inr [\<lparr>ent_text = ''Odisha'', ent_label = ''GPE''\<rparr>])
     {''odisha''} ''https://example.org/rss''
     \<lparr>find_title = Some ''Cyclone hits Odisha'',
      find_description = Some ''Officials began evacuation in Odisha state'',
      find_link = Some ''https://example.org/a'',
      find_pubDate = Some ''Tue, 10 Oct 2023 08:00:00 +0000''\<rparr>
   = Inr (Some \<lparr>item_title = ''Cyclone hits Odisha'',
                 item_date = ''2023-10-10 08:00:00'',
                 item_description = ''Officials began evacuation in Odisha state'',
                 item_link = ''https://example.org/a'',
                 item_locations = [''odisha''],
                 item_source = ''https://example.org/rss'',
                 item_disaster_keywords = [''cyclone'', ''evacuation'']\<rparr>)"
proof -
  let ?t = "''Cyclone hits Odisha Officials began evacuation in Odisha state''"
  let ?nlp = "\<lambda>t :: string. [\<lparr>ent_text = ''Odisha'', ent_label = ''GPE''\<rparr>]"
  have k: "disaster_keywords DISASTER_KEYWORDS_curr ?t = [''cyclone'', ''evacuation'']"
    by (simp add: disaster_keywords_def DISASTER_KEYWORDS_curr_def lower_eval)
  have r: "is_disaster_related DISASTER_KEYWORDS_curr ?t"
    by (simp add: is_disaster_related_def DISASTER_KEYWORDS_curr_def lower_eval)
  have d: "parse_date ''Tue, 10 Oct 2023 08:00:00 +0000'' = ''2023-10-10 08:00:00''"
    by (simp add: date_eval)
  have n: "{''odisha''} \<inter> ner_locations ?nlp ?t = {''odisha''}"
    by (simp add: ner_locations_def lower_eval Let_def del: set_filter)
  have l: "extract_locations_curr to_list ?nlp {''odisha''} ?t = [''odisha'']"
    unfolding extract_locations_curr_cases [OF assms] n
    by (simp add: list_of_set_singleton [OF assms])
  have s: "strip ''Cyclone hits Odisha'' = ''Cyclone hits Odisha''"
    "strip ''Officials began evacuation in Odisha state''
      = ''Officials began evacuation in Odisha state''"
    "strip ''https://example.org/a'' = ''https://example.org/a''"
    by (simp_all add: strip_eval)
  show ?thesis
    by (simp add: item_curr_def s r k d l with_nlp_def)
qed

end
